theory Spec2Isabelle
  imports Complex_Main "HOL-Library.Word" "HOL-Library.Sublist"
begin

section \<open>The shader loader of gst-plugins-gles (src/shader.c)\<close>

text \<open>
  The file \<^verbatim>\<open>shader.c\<close> drives two external libraries: the OpenGL ES 2.0 driver and
  GLib/GIO. Every call it makes to them is an event of a call log, written in the order
  of the C statements, together with the value the library returned. What a library
  returns is not the code's to decide: it is read from an environment \<open>env\<close>, whose
  answers may depend on the whole log so far, so that a statement proved for every
  \<open>env\<close> holds for every driver and every file system.

  Conventions:
  \<^item> \<^verbatim>\<open>GLuint\<close> and \<^verbatim>\<open>GLenum\<close> are 32-bit words; \<^verbatim>\<open>GLint\<close> and \<^verbatim>\<open>gint\<close> values are
    only compared and passed on, never computed with, and are \<open>int\<close>.
  \<^item> C strings and byte buffers are \<open>string\<close>; the byte \<open>CHR 0x00\<close> is NUL. A C string
    (a path, the extension string, a message) is given without its terminating NUL; the
    contents of a file are a byte buffer, which may hold NUL bytes, and which GIO
    terminates with a NUL byte of its own.
  \<^item> The \<^verbatim>\<open>sink\<close> argument is only the object the log macros print; it is left out,
    and \<^verbatim>\<open>GST_GLES_SINK (sink)\<close> is a cast.
  \<^item> A result \<open>None\<close> is undefined behaviour of the C program: a read through an
    uninitialised pointer, a read outside the table, a store beyond a variable.
  \<^item> \<^verbatim>\<open>malloc\<close> of the diagnostic buffer is taken to succeed.
\<close>

subsection \<open>Constants\<close>

type_synonym GLuint = "32 word"
type_synonym GLenum = "32 word"
type_synonym GLint = int

text \<open>
  Values of \<^verbatim>\<open>GLES2/gl2.h\<close> and \<^verbatim>\<open>errno.h\<close>, and the size in bytes of a \<^verbatim>\<open>GLsizei\<close> (a
  C \<^verbatim>\<open>int\<close>); the last constant is defined in shader.c.
\<close>

definition GL_NO_ERROR :: GLenum where "GL_NO_ERROR = 0"
definition GL_EXTENSIONS :: GLenum where "GL_EXTENSIONS = 0x1F03"
definition GL_FRAGMENT_SHADER :: GLenum where "GL_FRAGMENT_SHADER = 0x8B30"
definition GL_VERTEX_SHADER :: GLenum where "GL_VERTEX_SHADER = 0x8B31"
definition GL_COMPILE_STATUS :: GLenum where "GL_COMPILE_STATUS = 0x8B81"
definition GL_LINK_STATUS :: GLenum where "GL_LINK_STATUS = 0x8B82"
definition GL_INFO_LOG_LENGTH :: GLenum where "GL_INFO_LOG_LENGTH = 0x8B84"
definition sizeof_GLsizei :: nat where "sizeof_GLsizei = 4"
definition ENOMEM :: int where "ENOMEM = 12"
definition EINVAL :: int where "EINVAL = 22"
definition GL_NVIDIA_PLATFORM_BINARY_NV :: GLenum where "GL_NVIDIA_PLATFORM_BINARY_NV = 0x890B"

definition SHADER_EXT_BINARY :: string where "SHADER_EXT_BINARY = ''.glsh''"
definition SHADER_EXT_SOURCE :: string where "SHADER_EXT_SOURCE = ''.glsl''"
definition VERTEX_SHADER_BASENAME :: string where "VERTEX_SHADER_BASENAME = ''vertex''"

text \<open>The table \<^verbatim>\<open>shader_basenames[]\<close>.\<close>

definition shader_basenames :: "string list" where
  "shader_basenames = [''deint_linear'', ''copy'']"

text \<open>
  Modelled from the spec: the enumeration \<^verbatim>\<open>GstGLESShaderTypes\<close> is declared in
  shader.h, which is not among the sources. Its two enumerators are the ones the comments
  of the table name, numbered in the order of the table's entries (the spec maps each
  shader kind to one basename); a value of the enumeration is a C \<^verbatim>\<open>int\<close>.
\<close>

definition SHADER_DEINT_LINEAR :: int where "SHADER_DEINT_LINEAR = 0"
definition SHADER_COPY :: int where "SHADER_COPY = 1"

text \<open>
  \<^verbatim>\<open>shader_basenames[process_type]\<close>: C reads the array without a check; outside the
  table the read is undefined, which is \<open>None\<close> here.
\<close>

definition shader_basenames_at :: "int \<Rightarrow> string option" where
  "shader_basenames_at process_type =
     (if 0 \<le> process_type \<and> process_type < int (length shader_basenames)
      then Some (shader_basenames ! nat process_type) else None)"

subsection \<open>The call log\<close>

datatype gst_level = GST_LEVEL_ERROR | GST_LEVEL_WARNING | GST_LEVEL_DEBUG

datatype log_arg = ArgS string | ArgI int | ArgE GLenum

text \<open>
  One constructor for each library function shader.c calls; the last argument of a
  function that returns something is what it returned. A \<^verbatim>\<open>GFile\<close> is identified by
  its path, a freed buffer by its contents (\<open>None\<close> for the NULL pointer).
\<close>

datatype call =
    GlGetString GLenum "string option"
  | GlCreateShader GLenum GLuint
  | GlDeleteShader GLuint
  | GlShaderBinary "GLuint list" GLenum string int
  | GlGetError GLenum
  | GlShaderSource GLuint string int
  | GlCompileShader GLuint
  | GlGetShaderiv GLuint GLenum int
  | GlGetShaderInfoLog GLuint int string
  | GlCreateProgram GLuint
  | GlAttachShader GLuint GLuint
  | GlBindAttribLocation GLuint GLuint string
  | GlLinkProgram GLuint
  | GlGetProgramiv GLuint GLenum int
  | GlGetProgramInfoLog GLuint int string
  | GlDeleteProgram GLuint
  | GlUseProgram GLuint
  | GlGetAttribLocation GLuint string int
  | GlClearColor real real real real
  | GFileNewForPath string
  | GFileLoadContents string "string + string"
  | GObjectUnref string
  | GFree "string option"
  | Malloc nat
  | Free
  | GstLog gst_level string "log_arg list"

subsection \<open>The driver's program objects\<close>

text \<open>
  The one piece of driver state the model keeps itself is what OpenGL ES 2.0 (section
  2.10.4) fixes about attribute locations: \<^verbatim>\<open>glBindAttribLocation\<close> records a request,
  which takes effect at the next \<^verbatim>\<open>glLinkProgram\<close>; a successful link gives every active
  attribute a location, the requested one if there is a request for its name; and
  \<^verbatim>\<open>glGetAttribLocation\<close> returns the location of an active attribute of the last
  successful link, and -1 for any other name.
\<close>

record gl_program =
  bound :: "string \<Rightarrow> GLuint option"
  link_ok :: bool
  active :: "(string \<times> int) list"

record world =
  calls :: "call list"
  programs :: "GLuint \<Rightarrow> gl_program option"

text \<open>
  The environment. \<open>DATA_DIR\<close> is the macro of that name (set by the build, with a
  default in shader.c), and \<open>sizeof_gsize\<close> the size in bytes of a \<^verbatim>\<open>gsize\<close> on the target
  (4 where pointers have 32 bits, 8 where they have 64). Each \<open>_r\<close> field is the value a library call returns, given the
  log before the call and the call's arguments. \<open>glLinkProgram_r\<close> is the outcome of a
  link: \<open>None\<close> when it fails, otherwise the active attributes, each with the location
  the linker picks when no location is requested for it. \<open>uninit_err_null\<close> says whether
  the local \<^verbatim>\<open>GError *err\<close> of \<^verbatim>\<open>gl_load_source_shader\<close>, which is declared without
  an initialiser, happens to hold NULL.
\<close>

record env =
  DATA_DIR :: string
  sizeof_gsize :: nat
  glGetString_r :: "call list \<Rightarrow> GLenum \<Rightarrow> string option"
  glCreateShader_r :: "call list \<Rightarrow> GLenum \<Rightarrow> GLuint"
  glGetError_r :: "call list \<Rightarrow> GLenum"
  glGetShaderiv_r :: "call list \<Rightarrow> GLuint \<Rightarrow> GLenum \<Rightarrow> int"
  glGetShaderInfoLog_r :: "call list \<Rightarrow> GLuint \<Rightarrow> int \<Rightarrow> string"
  glCreateProgram_r :: "call list \<Rightarrow> GLuint"
  glLinkProgram_r :: "call list \<Rightarrow> GLuint \<Rightarrow> (string \<times> int) list option"
  glGetProgramiv_r :: "call list \<Rightarrow> GLuint \<Rightarrow> GLenum \<Rightarrow> int"
  glGetProgramInfoLog_r :: "call list \<Rightarrow> GLuint \<Rightarrow> int \<Rightarrow> string"
  g_file_load_contents_r :: "call list \<Rightarrow> string \<Rightarrow> string + string"
  uninit_err_null :: "call list \<Rightarrow> bool"

definition emit :: "call \<Rightarrow> world \<Rightarrow> world" where
  "emit c w = w\<lparr>calls := calls w @ [c]\<rparr>"

definition gst_log :: "gst_level \<Rightarrow> string \<Rightarrow> log_arg list \<Rightarrow> world \<Rightarrow> world" where
  "gst_log l fmt args w = emit (GstLog l fmt args) w"

subsection \<open>The library calls\<close>

definition glGetString :: "env \<Rightarrow> GLenum \<Rightarrow> world \<Rightarrow> string option \<times> world" where
  "glGetString e name w =
     (let r = glGetString_r e (calls w) name in (r, emit (GlGetString name r) w))"

definition glCreateShader :: "env \<Rightarrow> GLenum \<Rightarrow> world \<Rightarrow> GLuint \<times> world" where
  "glCreateShader e type w =
     (let r = glCreateShader_r e (calls w) type in (r, emit (GlCreateShader type r) w))"

definition glDeleteShader :: "GLuint \<Rightarrow> world \<Rightarrow> world" where
  "glDeleteShader shader w = emit (GlDeleteShader shader) w"

definition glShaderBinary :: "GLuint list \<Rightarrow> GLenum \<Rightarrow> string \<Rightarrow> int \<Rightarrow> world \<Rightarrow> world" where
  "glShaderBinary shaders format binary len w = emit (GlShaderBinary shaders format binary len) w"

definition glGetError :: "env \<Rightarrow> world \<Rightarrow> GLenum \<times> world" where
  "glGetError e w = (let r = glGetError_r e (calls w) in (r, emit (GlGetError r) w))"

definition glShaderSource :: "GLuint \<Rightarrow> string \<Rightarrow> int \<Rightarrow> world \<Rightarrow> world" where
  "glShaderSource shader src len w = emit (GlShaderSource shader src len) w"

definition glCompileShader :: "GLuint \<Rightarrow> world \<Rightarrow> world" where
  "glCompileShader shader w = emit (GlCompileShader shader) w"

definition glGetShaderiv :: "env \<Rightarrow> GLuint \<Rightarrow> GLenum \<Rightarrow> world \<Rightarrow> int \<times> world" where
  "glGetShaderiv e shader pname w =
     (let r = glGetShaderiv_r e (calls w) shader pname in (r, emit (GlGetShaderiv shader pname r) w))"

definition glGetShaderInfoLog :: "env \<Rightarrow> GLuint \<Rightarrow> int \<Rightarrow> world \<Rightarrow> string \<times> world" where
  "glGetShaderInfoLog e shader bufsize w =
     (let r = glGetShaderInfoLog_r e (calls w) shader bufsize
      in (r, emit (GlGetShaderInfoLog shader bufsize r) w))"

definition glCreateProgram :: "env \<Rightarrow> world \<Rightarrow> GLuint \<times> world" where
  "glCreateProgram e w =
     (let r = glCreateProgram_r e (calls w);
          ps = (if r = 0 then programs w
                else (programs w)(r \<mapsto> \<lparr>bound = Map.empty, link_ok = False, active = []\<rparr>))
      in (r, emit (GlCreateProgram r) (w\<lparr>programs := ps\<rparr>)))"

definition glAttachShader :: "GLuint \<Rightarrow> GLuint \<Rightarrow> world \<Rightarrow> world" where
  "glAttachShader prog shader w = emit (GlAttachShader prog shader) w"

definition glBindAttribLocation :: "GLuint \<Rightarrow> GLuint \<Rightarrow> string \<Rightarrow> world \<Rightarrow> world" where
  "glBindAttribLocation prog index name w =
     (let ps = (case programs w prog of
                  None \<Rightarrow> programs w
                | Some p \<Rightarrow> (programs w)(prog \<mapsto> p\<lparr>bound := (bound p)(name \<mapsto> index)\<rparr>))
      in emit (GlBindAttribLocation prog index name) (w\<lparr>programs := ps\<rparr>))"

definition place_attribute :: "gl_program \<Rightarrow> string \<times> int \<Rightarrow> string \<times> int" where
  "place_attribute p a =
     (case bound p (fst a) of None \<Rightarrow> a | Some index \<Rightarrow> (fst a, uint index))"

definition glLinkProgram :: "env \<Rightarrow> GLuint \<Rightarrow> world \<Rightarrow> world" where
  "glLinkProgram e prog w =
     (let ps = (case programs w prog of
                  None \<Rightarrow> programs w
                | Some p \<Rightarrow>
                    (case glLinkProgram_r e (calls w) prog of
                       None \<Rightarrow> (programs w)(prog \<mapsto> p\<lparr>link_ok := False\<rparr>)
                     | Some attrs \<Rightarrow>
                         (programs w)(prog \<mapsto> p\<lparr>link_ok := True,
                                                 active := map (place_attribute p) attrs\<rparr>)))
      in emit (GlLinkProgram prog) (w\<lparr>programs := ps\<rparr>))"

text \<open>
  \<^verbatim>\<open>GL_LINK_STATUS\<close> of an existing program is the outcome of its last link; every
  other query is the environment's.
\<close>

definition glGetProgramiv :: "env \<Rightarrow> GLuint \<Rightarrow> GLenum \<Rightarrow> world \<Rightarrow> int \<times> world" where
  "glGetProgramiv e prog pname w =
     (let r = (case programs w prog of
                 Some p \<Rightarrow> if pname = GL_LINK_STATUS then (if link_ok p then 1 else 0)
                           else glGetProgramiv_r e (calls w) prog pname
               | None \<Rightarrow> glGetProgramiv_r e (calls w) prog pname)
      in (r, emit (GlGetProgramiv prog pname r) w))"

definition glGetProgramInfoLog :: "env \<Rightarrow> GLuint \<Rightarrow> int \<Rightarrow> world \<Rightarrow> string \<times> world" where
  "glGetProgramInfoLog e prog bufsize w =
     (let r = glGetProgramInfoLog_r e (calls w) prog bufsize
      in (r, emit (GlGetProgramInfoLog prog bufsize r) w))"

definition glDeleteProgram :: "GLuint \<Rightarrow> world \<Rightarrow> world" where
  "glDeleteProgram prog w = emit (GlDeleteProgram prog) (w\<lparr>programs := (programs w)(prog := None)\<rparr>)"

definition glUseProgram :: "GLuint \<Rightarrow> world \<Rightarrow> world" where
  "glUseProgram prog w = emit (GlUseProgram prog) w"

definition glGetAttribLocation :: "GLuint \<Rightarrow> string \<Rightarrow> world \<Rightarrow> int \<times> world" where
  "glGetAttribLocation prog name w =
     (let r = (case programs w prog of
                 None \<Rightarrow> - 1
               | Some p \<Rightarrow> if link_ok p
                           then (case map_of (active p) name of None \<Rightarrow> - 1 | Some l \<Rightarrow> l)
                           else - 1)
      in (r, emit (GlGetAttribLocation prog name r) w))"

definition glClearColor :: "real \<Rightarrow> real \<Rightarrow> real \<Rightarrow> real \<Rightarrow> world \<Rightarrow> world" where
  "glClearColor r g b a w = emit (GlClearColor r g b a) w"

definition g_file_new_for_path :: "string \<Rightarrow> world \<Rightarrow> string \<times> world" where
  "g_file_new_for_path path w = (path, emit (GFileNewForPath path) w)"

definition g_file_load_contents :: "env \<Rightarrow> string \<Rightarrow> world \<Rightarrow> (string + string) \<times> world" where
  "g_file_load_contents e file w =
     (let r = g_file_load_contents_r e (calls w) file in (r, emit (GFileLoadContents file r) w))"

definition g_object_unref :: "string \<Rightarrow> world \<Rightarrow> world" where
  "g_object_unref file w = emit (GObjectUnref file) w"

definition g_free :: "string option \<Rightarrow> world \<Rightarrow> world" where
  "g_free mem w = emit (GFree mem) w"

text \<open>
  \<^verbatim>\<open>strstr\<close>, as an offset into the haystack; \<^verbatim>\<open>g_strstr_len\<close> with length -1 is
  \<^verbatim>\<open>strstr\<close>, and returns NULL for a NULL haystack (its \<^verbatim>\<open>g_return_val_if_fail\<close>).
\<close>

fun strstr :: "string \<Rightarrow> string \<Rightarrow> nat option" where
  "strstr [] needle = (if needle = [] then Some 0 else None)"
| "strstr (c # cs) needle =
     (if prefix needle (c # cs) then Some 0 else map_option Suc (strstr cs needle))"

definition g_strstr_len :: "string option \<Rightarrow> string \<Rightarrow> nat option" where
  "g_strstr_len haystack needle =
     (case haystack of None \<Rightarrow> None | Some h \<Rightarrow> strstr h needle)"

definition strlen :: "string \<Rightarrow> nat" where
  "strlen s = length (takeWhile (\<lambda>c. c \<noteq> CHR 0x00) s)"

text \<open>
  A \<^verbatim>\<open>gsize\<close> seen as a 32-bit signed integer: the low 32 bits, as two's complement.
  This is what the driver reads through \<^verbatim>\<open>(const GLint*) &src_len\<close> where \<^verbatim>\<open>gsize\<close> has
  32 bits, and on a little-endian machine where it has 64; and it is what
  \<^verbatim>\<open>(gsize*) &length\<close> leaves in \<^verbatim>\<open>length\<close> where \<^verbatim>\<open>gsize\<close> has 32 bits.
\<close>

definition gsize_as_GLint :: "nat \<Rightarrow> int" where
  "gsize_as_GLint n = sint (word_of_nat n :: 32 word)"

subsection \<open>shader.c\<close>

definition gl_extension_available :: "env \<Rightarrow> string \<Rightarrow> world \<Rightarrow> bool \<times> world" where
  "gl_extension_available e extension w =
     (let (gl_extensions, w1) = glGetString e GL_EXTENSIONS w
      in (g_strstr_len gl_extensions extension \<noteq> None, w1))"

text \<open>The statements after the label \<^verbatim>\<open>cleanup\<close> of \<^verbatim>\<open>gl_load_binary_shader\<close>.\<close>

definition cleanup :: "string option \<Rightarrow> string \<Rightarrow> GLuint \<Rightarrow> world \<Rightarrow> GLuint \<times> world" where
  "cleanup binary file shader w = (shader, g_object_unref file (g_free binary w))"

text \<open>
  \<^verbatim>\<open>gl_load_binary_shader\<close>. \<^verbatim>\<open>g_file_load_contents\<close> stores the length it has read, a
  \<^verbatim>\<open>gsize\<close>, through the pointer \<^verbatim>\<open>(gsize*) &length\<close>, and \<^verbatim>\<open>length\<close> is a \<^verbatim>\<open>GLsizei\<close>:
  where a \<^verbatim>\<open>gsize\<close> is wider, the store runs beyond the variable into its neighbours on
  the stack, and what the function does after a successful read is undefined. A failed
  read stores nothing. (\<^verbatim>\<open>gl_load_source_shader\<close> passes the address of a \<^verbatim>\<open>gsize\<close>.)
\<close>

definition gl_load_binary_shader ::
  "env \<Rightarrow> string \<Rightarrow> GLenum \<Rightarrow> world \<Rightarrow> (GLuint \<times> world) option" where
  "gl_load_binary_shader e filename type w =
     (let (available, w1) = gl_extension_available e ''GL_NV_platform_binary'' w in
      if \<not> available then
        Some (0, gst_log GST_LEVEL_WARNING
                   ''Binary shaders are not supported, falling back to source shaders.'' [] w1)
      else
        let (file, w2) = g_file_new_for_path filename w1;
            (shader, w3) = glCreateShader e type w2 in
        if shader = 0 then
          Some (cleanup None file 0
                  (gst_log GST_LEVEL_ERROR ''Could not create shader object'' [] w3))
        else
          (case g_file_load_contents e file w3 of
             (Inl msg, w4) \<Rightarrow>
               Some (cleanup None file 0
                       (glDeleteShader shader
                          (gst_log GST_LEVEL_ERROR ''Could not read binary shader from %s''
                             [ArgS filename] w4)))
           | (Inr binary, w4) \<Rightarrow>
               if sizeof_gsize e > sizeof_GLsizei then None
               else
                 let w5 = glShaderBinary [shader] GL_NVIDIA_PLATFORM_BINARY_NV binary
                            (gsize_as_GLint (length binary)) w4;
                     (err, w6) = glGetError e w5 in
                 if err \<noteq> GL_NO_ERROR then
                   Some (cleanup (Some binary) file 0
                           (glDeleteShader shader
                              (gst_log GST_LEVEL_ERROR ''Error loading binary shader: %d\<newline>''
                                 [ArgE err] w6)))
                 else Some (cleanup (Some binary) file shader w6)))"

text \<open>
  \<^verbatim>\<open>gl_load_source_shader\<close>. When the file cannot be read, the code reads
  \<^verbatim>\<open>err->message\<close>: GIO has stored an error there only if \<^verbatim>\<open>err\<close> held NULL before the
  call, and \<^verbatim>\<open>err\<close> was never initialised; with any other value the read is undefined.
  The error is then released with \<^verbatim>\<open>g_free\<close>, which is logged as the release of its
  message.
\<close>

definition gl_load_source_shader :: "env \<Rightarrow> string \<Rightarrow> GLenum \<Rightarrow> world \<Rightarrow> (GLuint \<times> world) option" where
  "gl_load_source_shader e shader_filename type w =
     (let (shader, w1) = glCreateShader e type w in
      if shader = 0 then
        Some (0, gst_log GST_LEVEL_ERROR ''Could not create shader object'' [] w1)
      else
        let (shader_file, w2) = g_file_new_for_path shader_filename w1 in
        (case g_file_load_contents e shader_file w2 of
           (Inl msg, w3) \<Rightarrow>
             if \<not> uninit_err_null e (calls w) then None
             else
               Some (0, glDeleteShader shader
                          (g_object_unref shader_file
                             (g_free (Some msg)
                                (gst_log GST_LEVEL_ERROR ''Could not read shader source: %s\<newline>''
                                   [ArgS msg] w3))))
         | (Inr shader_src, w3) \<Rightarrow>
             let src_len = strlen shader_src;
                 w4 = glShaderSource shader shader_src (gsize_as_GLint src_len) w3;
                 w5 = g_free (Some shader_src) w4;
                 w6 = g_object_unref shader_file w5;
                 w7 = glCompileShader shader w6;
                 (compiled, w8) = glGetShaderiv e shader GL_COMPILE_STATUS w7 in
             if compiled = 0 then
               let (info_len, w9) = glGetShaderiv e shader GL_INFO_LOG_LENGTH w8;
                   w10 = (if info_len > 1 then
                            let wa = emit (Malloc (nat info_len)) w9;
                                (info_log, wb) = glGetShaderInfoLog e shader info_len wa;
                                wc = gst_log GST_LEVEL_ERROR ''Failed to compile shader: %s''
                                       [ArgS info_log] wb
                            in emit Free wc
                          else w9)
               in Some (0, glDeleteShader shader w10)
             else
               Some (shader, gst_log GST_LEVEL_DEBUG ''Shader compiled succesfully'' [] w8)))"

text \<open>\<^verbatim>\<open>g_strdup_printf ("%s/%s%s", DATA_DIR, basename, ext)\<close>\<close>

definition shader_path :: "env \<Rightarrow> string \<Rightarrow> string \<Rightarrow> string" where
  "shader_path e basename ext = DATA_DIR e @ ''/'' @ basename @ ext"

definition gl_load_shader :: "env \<Rightarrow> string \<Rightarrow> GLenum \<Rightarrow> world \<Rightarrow> (GLuint \<times> world) option" where
  "gl_load_shader e basename type w =
     (let filename = shader_path e basename SHADER_EXT_BINARY;
          w1 = gst_log GST_LEVEL_DEBUG ''Load binary shader from %s'' [ArgS filename] w in
      case gl_load_binary_shader e filename type w1 of
        None \<Rightarrow> None
      | Some (shader, w2) \<Rightarrow>
          if shader = 0 then
            let w3 = g_free (Some filename) w2;
                filename2 = shader_path e basename SHADER_EXT_SOURCE;
                w4 = gst_log GST_LEVEL_DEBUG ''Load source shader from %s'' [ArgS filename2] w3 in
            (case gl_load_source_shader e filename2 type w4 of
               None \<Rightarrow> None
             | Some (shader2, w5) \<Rightarrow> Some (shader2, g_free (Some filename2) w5))
          else Some (shader, g_free (Some filename) w2))"

text \<open>
  Modelled from the spec: the structure \<^verbatim>\<open>GstGLESShader\<close> is declared in shader.h,
  which is not among the sources. It has the five fields shader.c reads and writes: the
  program and the two stage identifiers, and the two attribute locations of the spec.
  The C functions update it through a pointer; here they return it.
\<close>

record GstGLESShader =
  program :: GLuint
  vertex_shader :: GLuint
  fragment_shader :: GLuint
  position_loc :: GLint
  texcoord_loc :: GLint

definition gl_load_shaders ::
  "env \<Rightarrow> GstGLESShader \<Rightarrow> int \<Rightarrow> world \<Rightarrow> (int \<times> GstGLESShader \<times> world) option" where
  "gl_load_shaders e shader process_type w =
     (case gl_load_shader e VERTEX_SHADER_BASENAME GL_VERTEX_SHADER w of
        None \<Rightarrow> None
      | Some (v, w1) \<Rightarrow>
          let shader1 = shader\<lparr>vertex_shader := v\<rparr> in
          if v = 0 then Some (- EINVAL, shader1, w1)
          else
            (case shader_basenames_at process_type of
               None \<Rightarrow> None
             | Some basename \<Rightarrow>
                 (case gl_load_shader e basename GL_FRAGMENT_SHADER w1 of
                    None \<Rightarrow> None
                  | Some (f, w2) \<Rightarrow>
                      let shader2 = shader1\<lparr>fragment_shader := f\<rparr> in
                      if f = 0 then Some (- EINVAL, shader2, w2)
                      else Some (0, shader2, w2))))"

definition gl_init_shader ::
  "env \<Rightarrow> GstGLESShader \<Rightarrow> int \<Rightarrow> world \<Rightarrow> (int \<times> GstGLESShader \<times> world) option" where
  "gl_init_shader e shader process_type w =
     (let (p, w1) = glCreateProgram e w;
          shader1 = shader\<lparr>program := p\<rparr> in
      if p = 0 then
        Some (- ENOMEM, shader1, gst_log GST_LEVEL_ERROR ''Could not create GL program'' [] w1)
      else
        (case gl_load_shaders e shader1 process_type w1 of
           None \<Rightarrow> None
         | Some (ret, shader2, w2) \<Rightarrow>
             if ret < 0 then
               Some (ret, shader2,
                     gst_log GST_LEVEL_ERROR ''Could not create GL shaders: %d'' [ArgI ret] w2)
             else
               let w3 = glAttachShader (program shader2) (vertex_shader shader2) w2;
                   (err, w4) = glGetError e w3;
                   w5 = (if err \<noteq> GL_NO_ERROR then
                           gst_log GST_LEVEL_ERROR
                             ''Error while attaching the vertex shader: 0x%04x\<newline>'' [ArgE err] w4
                         else w4);
                   w6 = glAttachShader (program shader2) (fragment_shader shader2) w5;
                   (err2, w7) = glGetError e w6;
                   w8 = (if err2 \<noteq> GL_NO_ERROR then
                           gst_log GST_LEVEL_ERROR
                             ''Error while attaching the fragment shader: 0x%04x\<newline>'' [ArgE err2] w7
                         else w7);
                   w9 = glBindAttribLocation (program shader2) 0 ''vPosition'' w8;
                   w10 = glLinkProgram e (program shader2) w9;
                   (linked, w11) = glGetProgramiv e (program shader2) GL_LINK_STATUS w10 in
               if linked = 0 then
                 let w12 = gst_log GST_LEVEL_ERROR ''Linker failure'' [] w11;
                     (info_len, w13) = glGetProgramiv e (program shader2) GL_INFO_LOG_LENGTH w12;
                     w14 = (if info_len > 1 then
                              let wa = emit (Malloc (nat info_len)) w13;
                                  (info_log, wb) =
                                     glGetProgramInfoLog e (program shader2) info_len wa;
                                  wc = gst_log GST_LEVEL_ERROR ''Failed to link GL program: %s''
                                         [ArgS info_log] wb
                              in emit Free wc
                            else w13)
                 in Some (- EINVAL, shader2, glDeleteProgram (program shader2) w14)
               else
                 let w12 = glUseProgram (program shader2) w11;
                     (pos, w13) = glGetAttribLocation (program shader2) ''vPosition'' w12;
                     shader3 = shader2\<lparr>position_loc := pos\<rparr>;
                     (tex, w14) = glGetAttribLocation (program shader3) ''aTexcoord'' w13;
                     shader4 = shader3\<lparr>texcoord_loc := tex\<rparr>
                 in Some (0, shader4, glClearColor 0 0 0 1 w14)))"

definition gl_delete_shader :: "GstGLESShader \<Rightarrow> world \<Rightarrow> GstGLESShader \<times> world" where
  "gl_delete_shader shader w =
     (let w1 = glDeleteShader (vertex_shader shader) w;
          shader1 = shader\<lparr>vertex_shader := 0\<rparr>;
          w2 = glDeleteShader (fragment_shader shader1) w1;
          shader2 = shader1\<lparr>fragment_shader := 0\<rparr>;
          w3 = glDeleteProgram (program shader2) w2;
          shader3 = shader2\<lparr>program := 0\<rparr>
      in (shader3, w3))"

subsection \<open>Notions used to state the properties\<close>

text \<open>The calls made between two worlds: what the log of \<open>w'\<close> has beyond that of \<open>w\<close>.\<close>

definition calls_since :: "world \<Rightarrow> world \<Rightarrow> call list" where
  "calls_since w w' = drop (length (calls w)) (calls w')"

text \<open>The driver advertises an extension when its extension string contains the token.\<close>

definition advertised :: "string option \<Rightarrow> string \<Rightarrow> bool" where
  "advertised exts token = (case exts of None \<Rightarrow> False | Some s \<Rightarrow> sublist token s)"

text \<open>What the two error checks after the attach calls and the report of a link log write.\<close>

definition attach_log :: "string \<Rightarrow> GLenum \<Rightarrow> call list" where
  "attach_log fmt err =
     (if err \<noteq> GL_NO_ERROR then [GstLog GST_LEVEL_ERROR fmt [ArgE err]] else [])"

definition link_log :: "GLuint \<Rightarrow> int \<Rightarrow> string \<Rightarrow> call list" where
  "link_log p info_len info_log =
     (if info_len > 1
      then [Malloc (nat info_len), GlGetProgramInfoLog p info_len info_log,
            GstLog GST_LEVEL_ERROR ''Failed to link GL program: %s'' [ArgS info_log], Free]
      else [])"

text \<open>
  The log after the two attach steps of \<^verbatim>\<open>gl_init_shader\<close>, from the log \<open>h\<close> before them:
  each step is the attach call, \<^verbatim>\<open>glGetError\<close>, and a message if there was an error.
\<close>

definition attach_calls :: "env \<Rightarrow> GLuint \<Rightarrow> GstGLESShader \<Rightarrow> call list \<Rightarrow> call list" where
  "attach_calls e p shader2 h =
     (let err = glGetError_r e (h @ [GlAttachShader p (vertex_shader shader2)]);
          h5 = h @ GlAttachShader p (vertex_shader shader2) # GlGetError err
                 # attach_log ''Error while attaching the vertex shader: 0x%04x\<newline>'' err;
          err2 = glGetError_r e (h5 @ [GlAttachShader p (fragment_shader shader2)])
      in h5 @ GlAttachShader p (fragment_shader shader2) # GlGetError err2
            # attach_log ''Error while attaching the fragment shader: 0x%04x\<newline>'' err2)"

text \<open>
  A new program object after \<^verbatim>\<open>glBindAttribLocation (program, 0, "vPosition")\<close>, the
  same object after a successful link with the active attributes \<open>attrs\<close>, and the
  location \<^verbatim>\<open>glGetAttribLocation\<close> reports for a name in a linked program.
\<close>

definition bound_program :: gl_program where
  "bound_program = \<lparr>bound = [''vPosition'' \<mapsto> 0], link_ok = False, active = []\<rparr>"

definition linked_program :: "(string \<times> int) list \<Rightarrow> gl_program" where
  "linked_program attrs =
     bound_program\<lparr>link_ok := True, active := map (place_attribute bound_program) attrs\<rparr>"

definition attrib_loc :: "gl_program \<Rightarrow> string \<Rightarrow> int" where
  "attrib_loc prog name = (case map_of (active prog) name of None \<Rightarrow> - 1 | Some l \<Rightarrow> l)"

text \<open>
  A family of concrete environments for the closed examples: the extension string, the
  file system, the value of \<^verbatim>\<open>glGetError\<close>, the compile status and the outcome of the
  link are given; the vertex shader is object 1, the fragment shader object 2 and the
  program object 3; info logs are empty; the uninitialised \<^verbatim>\<open>err\<close> holds NULL; a
  \<^verbatim>\<open>gsize\<close> has four bytes.
\<close>

definition demo_env ::
  "string option \<Rightarrow> (string \<Rightarrow> string + string) \<Rightarrow> GLenum \<Rightarrow> int
     \<Rightarrow> (string \<times> int) list option \<Rightarrow> env" where
  "demo_env exts files gl_error compiled linked =
     \<lparr>DATA_DIR = ''/usr/share/gst-plugins-gles/shaders'',
      sizeof_gsize = 4,
      glGetString_r = (\<lambda>h name. exts),
      glCreateShader_r = (\<lambda>h type. if type = GL_VERTEX_SHADER then 1 else 2),
      glGetError_r = (\<lambda>h. gl_error),
      glGetShaderiv_r = (\<lambda>h shader pname. if pname = GL_COMPILE_STATUS then compiled else 0),
      glGetShaderInfoLog_r = (\<lambda>h shader bufsize. []),
      glCreateProgram_r = (\<lambda>h. 3),
      glLinkProgram_r = (\<lambda>h prog. linked),
      glGetProgramiv_r = (\<lambda>h prog pname. 0),
      glGetProgramInfoLog_r = (\<lambda>h prog bufsize. []),
      g_file_load_contents_r = (\<lambda>h file. files file),
      uninit_err_null = (\<lambda>h. True)\<rparr>"

definition world0 :: world where
  "world0 = \<lparr>calls = [], programs = Map.empty\<rparr>"

definition shader0 :: GstGLESShader where
  "shader0 = \<lparr>program = 0, vertex_shader = 0, fragment_shader = 0,
               position_loc = 0, texcoord_loc = 0\<rparr>"

text \<open>A file system in which every file reads as the same text.\<close>

definition every_file :: "string \<Rightarrow> string \<Rightarrow> string + string" where
  "every_file text path = Inr text"

text \<open>
  Three of them: a driver with the binary-shader extension and a blob in every file, the
  same on a target where a \<^verbatim>\<open>gsize\<close> has eight bytes, and a
  driver without the extension, GLSL text in every file, and a linker that, left alone, would place
  \<^verbatim>\<open>vPosition\<close> at 1 and \<^verbatim>\<open>aTexcoord\<close> at 2.
\<close>

definition binary_env :: env where
  "binary_env = demo_env (Some ''GL_OES_depth24 GL_NV_platform_binary'') (every_file ''BLOB'')
                  GL_NO_ERROR 1 None"

definition lp64_env :: env where
  "lp64_env = binary_env\<lparr>sizeof_gsize := 8\<rparr>"

definition source_env :: env where
  "source_env = demo_env (Some ''GL_OES_depth24 GL_OES_texture_npot'')
                  (every_file ''void main() {}'') GL_NO_ERROR 1
                  (Some [(''vPosition'', 1), (''aTexcoord'', 2)])"

text \<open>
  Variants of the last one: every attach is followed by the error
  \<^verbatim>\<open>GL_INVALID_OPERATION\<close> (0x0502); the link fails; the linked program has no active
  attribute \<^verbatim>\<open>vPosition\<close>; it has no active attribute at all.
\<close>

definition attach_error_env :: env where
  "attach_error_env = demo_env (Some ''GL_OES_depth24 GL_OES_texture_npot'')
                        (every_file ''void main() {}'') 0x0502 1
                        (Some [(''vPosition'', 1), (''aTexcoord'', 2)])"

definition link_failure_env :: env where
  "link_failure_env = demo_env (Some ''GL_OES_depth24 GL_OES_texture_npot'')
                        (every_file ''void main() {}'') GL_NO_ERROR 1 None"

definition no_position_env :: env where
  "no_position_env = demo_env (Some ''GL_OES_depth24 GL_OES_texture_npot'')
                       (every_file ''void main() {}'') GL_NO_ERROR 1
                       (Some [(''aTexcoord'', 0)])"

definition no_attribute_env :: env where
  "no_attribute_env = demo_env (Some ''GL_OES_depth24 GL_OES_texture_npot'')
                        (every_file ''void main() {}'') GL_NO_ERROR 1 (Some [])"

text \<open>
  A source file of five bytes with a NUL byte in the middle, a driver that reads it, and
  a structure with three different handles.
\<close>

definition nul_text :: string where
  "nul_text = [CHR ''a'', CHR ''b'', CHR 0x00, CHR ''c'', CHR ''d'']"

definition nul_env :: env where
  "nul_env = demo_env (Some ''GL_OES_depth24'') (every_file nul_text) GL_NO_ERROR 1 None"

definition shader123 :: GstGLESShader where
  "shader123 = \<lparr>program = 3, vertex_shader = 1, fragment_shader = 2,
                 position_loc = 0, texcoord_loc = 1\<rparr>"

section \<open>Properties\<close>

subsection \<open>Auxiliary facts\<close>

lemmas prim_defs = emit_def gst_log_def glGetString_def glCreateShader_def glDeleteShader_def
  glShaderBinary_def glGetError_def glShaderSource_def glCompileShader_def glGetShaderiv_def
  glGetShaderInfoLog_def glCreateProgram_def glAttachShader_def glBindAttribLocation_def
  glLinkProgram_def glGetProgramiv_def glGetProgramInfoLog_def glDeleteProgram_def
  glUseProgram_def glGetAttribLocation_def glClearColor_def g_file_new_for_path_def
  g_file_load_contents_def g_object_unref_def g_free_def cleanup_def

lemmas link_defs = emit_def glAttachShader_def glGetError_def
  glBindAttribLocation_def glLinkProgram_def glGetProgramiv_def glGetProgramInfoLog_def
  glDeleteProgram_def glUseProgram_def glGetAttribLocation_def glClearColor_def

lemmas const_defs = GL_NO_ERROR_def GL_EXTENSIONS_def GL_FRAGMENT_SHADER_def GL_VERTEX_SHADER_def
  GL_COMPILE_STATUS_def GL_LINK_STATUS_def GL_INFO_LOG_LENGTH_def ENOMEM_def EINVAL_def
  GL_NVIDIA_PLATFORM_BINARY_NV_def SHADER_EXT_BINARY_def SHADER_EXT_SOURCE_def
  VERTEX_SHADER_BASENAME_def shader_basenames_def SHADER_DEINT_LINEAR_def SHADER_COPY_def
  shader_basenames_at_def

lemmas run_defs = gl_load_shaders_def gl_load_shader_def
  gl_load_source_shader_def gl_load_binary_shader_def gl_extension_available_def
  g_strstr_len_def shader_path_def strlen_def prim_defs Let_def
  demo_env_def world0_def shader0_def every_file_def const_defs sizeof_GLsizei_def

lemma calls_since_eq: "calls w' = calls w @ xs \<Longrightarrow> calls_since w w' = xs"
  by (simp add: calls_since_def)

lemma calls_since_append [simp]: "calls_since w (w''\<lparr>calls := calls w @ xs\<rparr>) = xs"
  by (simp add: calls_since_def)

text \<open>\<^verbatim>\<open>strstr\<close> finds the needle exactly when the haystack contains it.\<close>

lemma strstr_None_iff: "strstr h n = None \<longleftrightarrow> \<not> sublist n h"
  by (induction h) (auto simp: sublist_Cons_right)

lemma strstr_Some_iff: "(\<exists>y. strstr h n = Some y) \<longleftrightarrow> sublist n h"
  using strstr_None_iff [of h n] by (cases "strstr h n") auto

lemma gl_extension_available_eq:
  "gl_extension_available e ext w =
     (advertised (glGetString_r e (calls w) GL_EXTENSIONS) ext,
      emit (GlGetString GL_EXTENSIONS (glGetString_r e (calls w) GL_EXTENSIONS)) w)"
  by (simp add: gl_extension_available_def glGetString_def Let_def advertised_def g_strstr_len_def
      strstr_Some_iff split: option.splits)

lemmas binary_defs = gl_load_binary_shader_def gl_extension_available_eq prim_defs Let_def

lemmas source_defs = gl_load_source_shader_def prim_defs Let_def

lemma strlen_le: "strlen s \<le> length s"
  by (simp add: strlen_def length_takeWhile_le)

lemma length_takeWhile_eq: "length (takeWhile P s) = length s \<longleftrightarrow> (\<forall>x\<in>set s. P x)"
  by (induction s) auto

lemma strlen_eq_length_iff: "strlen s = length s \<longleftrightarrow> CHR 0x00 \<notin> set s"
  by (auto simp: strlen_def length_takeWhile_eq)

lemma gsize_as_GLint_small:
  assumes "n < 2 ^ 31"
  shows "gsize_as_GLint n = int n"
proof -
  have "sint (word_of_nat n :: 32 word) = signed_take_bit 31 (int n)"
    using sint_sbintrunc' [of "int n", where 'a = 32] by simp
  also have "\<dots> = int n"
    using assms by (intro signed_take_bit_int_eq_self) auto
  finally show ?thesis by (simp add: gsize_as_GLint_def)
qed

text \<open>The loaders leave the program objects alone, and the binary loader touches one file.\<close>

lemma gl_load_binary_shader_programs:
  "gl_load_binary_shader e f t w = Some (b, w') \<Longrightarrow> programs w' = programs w"
  by (auto simp: binary_defs split: prod.splits sum.splits if_splits)

lemma gl_load_binary_shader_calls:
  assumes "gl_load_binary_shader e f t w = Some (b, w')"
  shows "calls w' = calls w @ calls_since w w'"
    and "GFileLoadContents g r \<in> set (calls_since w w') \<Longrightarrow> g = f"
    and "GFileNewForPath g \<in> set (calls_since w w') \<Longrightarrow> g = f"
    and "GlShaderSource s src n \<notin> set (calls_since w w')"
    and "GlCompileShader s \<notin> set (calls_since w w')"
  using assms by (auto simp: binary_defs split: prod.splits sum.splits if_splits)

text \<open>
  The binary loader returns when the length fits its variable, and when the extension is
  missing; it is undefined after a successful read where the length does not fit.
\<close>

lemma gl_load_binary_shader_total:
  assumes "sizeof_gsize e \<le> sizeof_GLsizei
           \<or> \<not> advertised (glGetString_r e (calls w) GL_EXTENSIONS) ''GL_NV_platform_binary''"
  shows "\<exists>b w'. gl_load_binary_shader e f t w = Some (b, w')"
  using assms by (auto simp: binary_defs split: prod.splits sum.splits)

lemma gl_load_binary_shader_overrun:
  assumes "advertised (glGetString_r e (calls w) GL_EXTENSIONS) ''GL_NV_platform_binary''"
    and "glCreateShader_r e (calls w @ [GlGetString GL_EXTENSIONS
                                          (glGetString_r e (calls w) GL_EXTENSIONS),
                                        GFileNewForPath f]) t = shader"
    and "shader \<noteq> 0"
    and "g_file_load_contents_r e
           (calls w @ [GlGetString GL_EXTENSIONS (glGetString_r e (calls w) GL_EXTENSIONS),
                       GFileNewForPath f, GlCreateShader t shader]) f = Inr binary"
    and "sizeof_gsize e > sizeof_GLsizei"
  shows "gl_load_binary_shader e f t w = None"
  using assms by (simp add: binary_defs split: prod.splits)

text \<open>
  With the extension advertised, whenever the binary loader returns, the calls it has
  made are one of four sequences: all steps succeed and the handle is returned; no shader
  object is created; the file cannot be read; \<^verbatim>\<open>glGetError\<close>, called after
  \<^verbatim>\<open>glShaderBinary\<close>, returns an error. In the last two the shader object is deleted and
  0 returned, and each sequence ends with the release of the buffer and of the file.
\<close>

lemma gl_load_binary_shader_outcomes:
  assumes adv: "advertised (glGetString_r e (calls w) GL_EXTENSIONS) ''GL_NV_platform_binary''"
    and run: "gl_load_binary_shader e filename type w = Some (shader, w')"
  shows "(\<exists>exts binary. shader \<noteq> 0 \<and> calls_since w w' =
            [GlGetString GL_EXTENSIONS exts, GFileNewForPath filename,
             GlCreateShader type shader, GFileLoadContents filename (Inr binary),
             GlShaderBinary [shader] GL_NVIDIA_PLATFORM_BINARY_NV binary
               (gsize_as_GLint (length binary)),
             GlGetError GL_NO_ERROR, GFree (Some binary), GObjectUnref filename])
       \<or> (\<exists>exts. shader = 0 \<and> calls_since w w' =
            [GlGetString GL_EXTENSIONS exts, GFileNewForPath filename,
             GlCreateShader type 0,
             GstLog GST_LEVEL_ERROR ''Could not create shader object'' [],
             GFree None, GObjectUnref filename])
       \<or> (\<exists>exts s msg. shader = 0 \<and> s \<noteq> 0 \<and> calls_since w w' =
            [GlGetString GL_EXTENSIONS exts, GFileNewForPath filename,
             GlCreateShader type s, GFileLoadContents filename (Inl msg),
             GstLog GST_LEVEL_ERROR ''Could not read binary shader from %s'' [ArgS filename],
             GlDeleteShader s, GFree None, GObjectUnref filename])
       \<or> (\<exists>exts s binary err. shader = 0 \<and> s \<noteq> 0 \<and> err \<noteq> GL_NO_ERROR
             \<and> calls_since w w' =
            [GlGetString GL_EXTENSIONS exts, GFileNewForPath filename,
             GlCreateShader type s, GFileLoadContents filename (Inr binary),
             GlShaderBinary [s] GL_NVIDIA_PLATFORM_BINARY_NV binary
               (gsize_as_GLint (length binary)),
             GlGetError err,
             GstLog GST_LEVEL_ERROR ''Error loading binary shader: %d\<newline>'' [ArgE err],
             GlDeleteShader s, GFree (Some binary), GObjectUnref filename])"
  using assms by (auto simp: binary_defs split: prod.splits sum.splits if_splits)

lemma gl_load_source_shader_programs:
  "gl_load_source_shader e f t w = Some (r, w') \<Longrightarrow> programs w' = programs w"
  by (auto simp: source_defs split: prod.splits sum.splits if_splits)

lemma gl_load_source_shader_total:
  "uninit_err_null e (calls w) \<Longrightarrow> \<exists>r w'. gl_load_source_shader e f t w = Some (r, w')"
  by (auto simp: source_defs split: prod.splits sum.splits if_splits)

lemma shader_path_ext: "shader_path e b SHADER_EXT_BINARY \<noteq> shader_path e b SHADER_EXT_SOURCE"
  by (simp add: shader_path_def SHADER_EXT_BINARY_def SHADER_EXT_SOURCE_def)

lemma gl_load_shader_programs:
  assumes "gl_load_shader e b t w = Some (r, w')"
  shows "programs w' = programs w"
proof -
  let ?fb = "shader_path e b SHADER_EXT_BINARY"
  let ?w1 = "gst_log GST_LEVEL_DEBUG ''Load binary shader from %s'' [ArgS ?fb] w"
  from assms obtain s w2 where bin: "gl_load_binary_shader e ?fb t ?w1 = Some (s, w2)"
    by (cases "gl_load_binary_shader e ?fb t ?w1") (auto simp: gl_load_shader_def Let_def)
  have p2: "programs w2 = programs w"
    using gl_load_binary_shader_programs [OF bin] by (simp add: gst_log_def emit_def)
  show ?thesis
  proof (cases "s = 0")
    case False
    then show ?thesis
      using assms bin p2 by (auto simp: gl_load_shader_def Let_def g_free_def emit_def)
  next
    case True
    then show ?thesis
      using assms bin p2
      by (auto simp: gl_load_shader_def Let_def g_free_def emit_def gst_log_def
          split: option.splits dest!: gl_load_source_shader_programs)
  qed
qed

lemma gl_load_shader_total:
  assumes null: "\<forall>h. uninit_err_null e h"
    and fits: "sizeof_gsize e \<le> sizeof_GLsizei
               \<or> (\<forall>h. \<not> advertised (glGetString_r e h GL_EXTENSIONS) ''GL_NV_platform_binary'')"
  shows "\<exists>r w'. gl_load_shader e b t w = Some (r, w')"
proof -
  let ?fb = "shader_path e b SHADER_EXT_BINARY"
  let ?fs = "shader_path e b SHADER_EXT_SOURCE"
  let ?w1 = "gst_log GST_LEVEL_DEBUG ''Load binary shader from %s'' [ArgS ?fb] w"
  obtain s w2 where bin: "gl_load_binary_shader e ?fb t ?w1 = Some (s, w2)"
    using gl_load_binary_shader_total [of e ?w1 ?fb t] fits by blast
  let ?w4 = "gst_log GST_LEVEL_DEBUG ''Load source shader from %s'' [ArgS ?fs]
               (g_free (Some ?fb) w2)"
  obtain r w5 where "gl_load_source_shader e ?fs t ?w4 = Some (r, w5)"
    using gl_load_source_shader_total [of e ?w4 ?fs t] null by blast
  then show ?thesis
    using bin by (cases "s = 0") (simp_all add: gl_load_shader_def Let_def)
qed

lemma gl_load_shaders_result:
  assumes "gl_load_shaders e sh pt w = Some (ret, sh2, w2)"
  shows "programs w2 = programs w"
    and "program sh2 = program sh"
    and "position_loc sh2 = position_loc sh"
    and "texcoord_loc sh2 = texcoord_loc sh"
    and "ret = 0 \<or> ret = - EINVAL"
    and "ret = 0 \<Longrightarrow> vertex_shader sh2 \<noteq> 0 \<and> fragment_shader sh2 \<noteq> 0"
    and "ret \<noteq> 0 \<Longrightarrow> vertex_shader sh2 = 0 \<or> fragment_shader sh2 = 0"
  using assms
  by (auto simp: gl_load_shaders_def Let_def EINVAL_def split: option.splits if_splits
      dest!: gl_load_shader_programs)

lemma gl_load_shaders_total:
  assumes null: "\<forall>h. uninit_err_null e h"
    and fits: "sizeof_gsize e \<le> sizeof_GLsizei
               \<or> (\<forall>h. \<not> advertised (glGetString_r e h GL_EXTENSIONS) ''GL_NV_platform_binary'')"
    and kind: "pt = SHADER_DEINT_LINEAR \<or> pt = SHADER_COPY"
  shows "\<exists>ret sh2 w2. gl_load_shaders e sh pt w = Some (ret, sh2, w2)"
proof -
  obtain v w1 where v: "gl_load_shader e VERTEX_SHADER_BASENAME GL_VERTEX_SHADER w = Some (v, w1)"
    using gl_load_shader_total [OF null fits] by blast
  obtain basename where b: "shader_basenames_at pt = Some basename"
    using kind
    by (auto simp: shader_basenames_at_def shader_basenames_def SHADER_DEINT_LINEAR_def
        SHADER_COPY_def)
  obtain f w2 where f: "gl_load_shader e basename GL_FRAGMENT_SHADER w1 = Some (f, w2)"
    using gl_load_shader_total [OF null fits] by blast
  show ?thesis
    using v b f by (simp add: gl_load_shaders_def Let_def)
qed

lemma attach_check:
  "(if err \<noteq> GL_NO_ERROR then gst_log GST_LEVEL_ERROR fmt [ArgE err] w else w)
     = w\<lparr>calls := calls w @ attach_log fmt err\<rparr>"
  by (simp add: attach_log_def gst_log_def emit_def)

lemma link_report:
  "(if 1 < n
    then let wa = emit (Malloc (nat n)) w;
             (info_log, wb) = glGetProgramInfoLog e p n wa;
             wc = gst_log GST_LEVEL_ERROR ''Failed to link GL program: %s'' [ArgS info_log] wb
         in emit Free wc
    else w)
   = w\<lparr>calls := calls w @ link_log p n (glGetProgramInfoLog_r e (calls w @ [Malloc (nat n)]) p n)\<rparr>"
  by (simp add: link_log_def gst_log_def emit_def glGetProgramInfoLog_def Let_def)

lemma glCreateProgram_fresh:
  assumes "glCreateProgram e w = (p, w1)" "p \<noteq> 0"
  shows "programs w1 p = Some \<lparr>bound = Map.empty, link_ok = False, active = []\<rparr>"
  using assms by (auto simp: glCreateProgram_def Let_def emit_def)

text \<open>
  \<^verbatim>\<open>gl_init_shader\<close> from the attach steps on, once the program object exists and both
  stages are loaded: the result when the link succeeds, and when it fails.
\<close>

lemma gl_init_shader_link_ok:
  assumes prog: "glCreateProgram e w = (p, w1)" and nz: "p \<noteq> 0"
    and load: "gl_load_shaders e (shader\<lparr>program := p\<rparr>) pt w1 = Some (0, shader2, w2)"
    and link: "glLinkProgram_r e (attach_calls e p shader2 (calls w2)
                 @ [GlBindAttribLocation p 0 ''vPosition'']) p = Some attrs"
  shows "gl_init_shader e shader pt w =
           Some (0, shader2\<lparr>position_loc := attrib_loc (linked_program attrs) ''vPosition'',
                            texcoord_loc := attrib_loc (linked_program attrs) ''aTexcoord''\<rparr>,
                 w2\<lparr>programs := (programs w2)(p \<mapsto> linked_program attrs),
                    calls := attach_calls e p shader2 (calls w2)
                      @ [GlBindAttribLocation p 0 ''vPosition'', GlLinkProgram p,
                         GlGetProgramiv p GL_LINK_STATUS 1, GlUseProgram p,
                         GlGetAttribLocation p ''vPosition''
                           (attrib_loc (linked_program attrs) ''vPosition''),
                         GlGetAttribLocation p ''aTexcoord''
                           (attrib_loc (linked_program attrs) ''aTexcoord''),
                         GlClearColor 0 0 0 1]\<rparr>)"
proof -
  have p: "program shader2 = p"
    using gl_load_shaders_result(2) [OF load] by simp
  have fresh: "programs w2 p = Some \<lparr>bound = Map.empty, link_ok = False, active = []\<rparr>"
    using gl_load_shaders_result(1) [OF load] glCreateProgram_fresh [OF prog nz] by simp
  show ?thesis
    unfolding gl_init_shader_def
    using link
    by (simp add: attach_calls_def prog nz load p fresh Let_def link_defs attach_check
        bound_program_def linked_program_def attrib_loc_def split del: if_split)
qed

lemma gl_init_shader_link_failed:
  assumes prog: "glCreateProgram e w = (p, w1)" and nz: "p \<noteq> 0"
    and load: "gl_load_shaders e (shader\<lparr>program := p\<rparr>) pt w1 = Some (0, shader2, w2)"
    and link: "glLinkProgram_r e (attach_calls e p shader2 (calls w2)
                 @ [GlBindAttribLocation p 0 ''vPosition'']) p = None"
  shows "\<exists>info_len info_log. gl_init_shader e shader pt w =
           Some (- EINVAL, shader2,
                 w2\<lparr>programs := (programs w2)(p := None),
                    calls := attach_calls e p shader2 (calls w2)
                      @ [GlBindAttribLocation p 0 ''vPosition'', GlLinkProgram p,
                         GlGetProgramiv p GL_LINK_STATUS 0,
                         GstLog GST_LEVEL_ERROR ''Linker failure'' [],
                         GlGetProgramiv p GL_INFO_LOG_LENGTH info_len]
                      @ link_log p info_len info_log @ [GlDeleteProgram p]\<rparr>)"
proof -
  have p: "program shader2 = p"
    using gl_load_shaders_result(2) [OF load] by simp
  have fresh: "programs w2 p = Some \<lparr>bound = Map.empty, link_ok = False, active = []\<rparr>"
    using gl_load_shaders_result(1) [OF load] glCreateProgram_fresh [OF prog nz] by simp
  have pn: "GL_INFO_LOG_LENGTH \<noteq> GL_LINK_STATUS"
    by (simp add: GL_INFO_LOG_LENGTH_def GL_LINK_STATUS_def)
  have "\<exists>info_len info_log. gl_init_shader e shader pt w =
           Some (- EINVAL, shader2,
                 w2\<lparr>programs := (programs w2)(p := None),
                    calls := (attach_calls e p shader2 (calls w2)
                      @ [GlBindAttribLocation p 0 ''vPosition'', GlLinkProgram p,
                         GlGetProgramiv p GL_LINK_STATUS 0,
                         GstLog GST_LEVEL_ERROR ''Linker failure'' []])
                      @ GlGetProgramiv p GL_INFO_LOG_LENGTH info_len
                      # link_log p info_len info_log @ [GlDeleteProgram p]\<rparr>)"
    unfolding gl_init_shader_def
    using link
    apply (simp add: attach_calls_def prog nz load p fresh pn Let_def link_defs gst_log_def
        attach_check link_report split del: if_split)
    apply (intro exI)
    apply (rule refl)
    done
  then show ?thesis by simp
qed

lemma not_advertised_source_env:
  "\<not> advertised (glGetString_r source_env h GL_EXTENSIONS) ''GL_NV_platform_binary''"
  by (simp add: advertised_def source_env_def demo_env_def strstr_None_iff [symmetric])

lemma advertised_binary_env:
  "advertised (glGetString_r binary_env h GL_EXTENSIONS) ''GL_NV_platform_binary''"
  by (simp add: advertised_def binary_env_def demo_env_def strstr_Some_iff [symmetric])

subsection \<open>C1: binary first, source as the fallback\<close>

text \<open>
  Claim C1. For every basename and stage type, \<^verbatim>\<open>gl_load_shader\<close> builds the path
  \<open>DATA_DIR/basename.glsh\<close> and runs the binary loader on it. If that returns a non-zero
  handle \<open>b\<close>, \<^verbatim>\<open>gl_load_shader\<close> returns \<open>b\<close>, and among the calls it has made there is
  no read of \<open>DATA_DIR/basename.glsl\<close>, no \<^verbatim>\<open>glShaderSource\<close> and no
  \<^verbatim>\<open>glCompileShader\<close>. If it returns 0, the result is that of the source compiler on
  \<open>DATA_DIR/basename.glsl\<close>, whatever it is. When the driver's extension string does not
  contain \<^verbatim>\<open>GL_NV_platform_binary\<close>, the binary loader returns 0, so the source compiler
  runs. Where the binary loader is undefined, so is \<^verbatim>\<open>gl_load_shader\<close>.
\<close>

theorem gl_load_shader_fallback:
  "shader_path e basename SHADER_EXT_BINARY = DATA_DIR e @ ''/'' @ basename @ ''.glsh''
 \<and> shader_path e basename SHADER_EXT_SOURCE = DATA_DIR e @ ''/'' @ basename @ ''.glsl''
 \<and> (gl_load_binary_shader e (shader_path e basename SHADER_EXT_BINARY) type
        (gst_log GST_LEVEL_DEBUG ''Load binary shader from %s''
           [ArgS (shader_path e basename SHADER_EXT_BINARY)] w) = Some (b, w2) \<longrightarrow>
      (b \<noteq> 0 \<longrightarrow>
         (\<exists>w'. gl_load_shader e basename type w = Some (b, w')
            \<and> (\<forall>r. GFileLoadContents (shader_path e basename SHADER_EXT_SOURCE) r
                      \<notin> set (calls_since w w'))
            \<and> (\<forall>s src n. GlShaderSource s src n \<notin> set (calls_since w w'))
            \<and> (\<forall>s. GlCompileShader s \<notin> set (calls_since w w'))))
    \<and> (b = 0 \<longrightarrow>
         gl_load_shader e basename type w =
           (case gl_load_source_shader e (shader_path e basename SHADER_EXT_SOURCE) type
                   (gst_log GST_LEVEL_DEBUG ''Load source shader from %s''
                      [ArgS (shader_path e basename SHADER_EXT_SOURCE)]
                      (g_free (Some (shader_path e basename SHADER_EXT_BINARY)) w2)) of
              None \<Rightarrow> None
            | Some (shader, w5) \<Rightarrow>
                Some (shader, g_free (Some (shader_path e basename SHADER_EXT_SOURCE)) w5))))
 \<and> (gl_load_binary_shader e (shader_path e basename SHADER_EXT_BINARY) type
        (gst_log GST_LEVEL_DEBUG ''Load binary shader from %s''
           [ArgS (shader_path e basename SHADER_EXT_BINARY)] w) = None \<longrightarrow>
      gl_load_shader e basename type w = None)
 \<and> (\<not> advertised (glGetString_r e
              (calls w @ [GstLog GST_LEVEL_DEBUG ''Load binary shader from %s''
                           [ArgS (shader_path e basename SHADER_EXT_BINARY)]]) GL_EXTENSIONS)
            ''GL_NV_platform_binary'' \<longrightarrow>
      (\<exists>w2. gl_load_binary_shader e (shader_path e basename SHADER_EXT_BINARY) type
               (gst_log GST_LEVEL_DEBUG ''Load binary shader from %s''
                  [ArgS (shader_path e basename SHADER_EXT_BINARY)] w) = Some (0, w2)))"
proof -
  let ?fb = "shader_path e basename SHADER_EXT_BINARY"
  let ?fs = "shader_path e basename SHADER_EXT_SOURCE"
  let ?w1 = "gst_log GST_LEVEL_DEBUG ''Load binary shader from %s'' [ArgS ?fb] w"
  have paths: "?fb = DATA_DIR e @ ''/'' @ basename @ ''.glsh''"
      "?fs = DATA_DIR e @ ''/'' @ basename @ ''.glsl''"
    by (simp_all add: shader_path_def SHADER_EXT_BINARY_def SHADER_EXT_SOURCE_def)
  have some: "gl_load_binary_shader e ?fb type ?w1 = Some (b, w2) \<longrightarrow>
      (b \<noteq> 0 \<longrightarrow>
         (\<exists>w'. gl_load_shader e basename type w = Some (b, w')
            \<and> (\<forall>r. GFileLoadContents ?fs r \<notin> set (calls_since w w'))
            \<and> (\<forall>s src n. GlShaderSource s src n \<notin> set (calls_since w w'))
            \<and> (\<forall>s. GlCompileShader s \<notin> set (calls_since w w'))))
    \<and> (b = 0 \<longrightarrow>
         gl_load_shader e basename type w =
           (case gl_load_source_shader e ?fs type
                   (gst_log GST_LEVEL_DEBUG ''Load source shader from %s'' [ArgS ?fs]
                      (g_free (Some ?fb) w2)) of
              None \<Rightarrow> None
            | Some (shader, w5) \<Rightarrow> Some (shader, g_free (Some ?fs) w5)))"
  proof (intro impI conjI)
    assume bin: "gl_load_binary_shader e ?fb type ?w1 = Some (b, w2)"
    assume nz: "b \<noteq> 0"
    define xs where "xs = calls_since ?w1 w2"
    have "calls w2 = calls ?w1 @ xs"
      unfolding xs_def by (rule gl_load_binary_shader_calls(1) [OF bin])
    then have "calls (g_free (Some ?fb) w2) =
        calls w @ GstLog GST_LEVEL_DEBUG ''Load binary shader from %s'' [ArgS ?fb]
          # xs @ [GFree (Some ?fb)]"
      by (simp add: g_free_def gst_log_def emit_def)
    then have since: "calls_since w (g_free (Some ?fb) w2) =
        GstLog GST_LEVEL_DEBUG ''Load binary shader from %s'' [ArgS ?fb]
          # calls_since ?w1 w2 @ [GFree (Some ?fb)]"
      unfolding xs_def [symmetric] by (rule calls_since_eq)
    have res: "gl_load_shader e basename type w = Some (b, g_free (Some ?fb) w2)"
      using bin nz by (simp add: gl_load_shader_def Let_def)
    have "\<forall>r. GFileLoadContents ?fs r \<notin> set (calls_since w (g_free (Some ?fb) w2))"
    proof (intro allI notI)
      fix r
      assume "GFileLoadContents ?fs r \<in> set (calls_since w (g_free (Some ?fb) w2))"
      then have "GFileLoadContents ?fs r \<in> set (calls_since ?w1 w2)"
        by (simp add: since)
      then have "?fs = ?fb"
        by (rule gl_load_binary_shader_calls(2) [OF bin])
      then show False
        using shader_path_ext [of e basename] by simp
    qed
    moreover have "\<forall>s src n. GlShaderSource s src n \<notin> set (calls_since w (g_free (Some ?fb) w2))"
      using gl_load_binary_shader_calls(4) [OF bin] by (simp add: since)
    moreover have "\<forall>s. GlCompileShader s \<notin> set (calls_since w (g_free (Some ?fb) w2))"
      using gl_load_binary_shader_calls(5) [OF bin] by (simp add: since)
    ultimately show "\<exists>w'. gl_load_shader e basename type w = Some (b, w')
               \<and> (\<forall>r. GFileLoadContents ?fs r \<notin> set (calls_since w w'))
               \<and> (\<forall>s src n. GlShaderSource s src n \<notin> set (calls_since w w'))
               \<and> (\<forall>s. GlCompileShader s \<notin> set (calls_since w w'))"
      using res by blast
  next
    assume bin: "gl_load_binary_shader e ?fb type ?w1 = Some (b, w2)"
    assume "b = 0"
    then show "gl_load_shader e basename type w =
           (case gl_load_source_shader e ?fs type
                   (gst_log GST_LEVEL_DEBUG ''Load source shader from %s'' [ArgS ?fs]
                      (g_free (Some ?fb) w2)) of
              None \<Rightarrow> None
            | Some (shader, w5) \<Rightarrow> Some (shader, g_free (Some ?fs) w5))"
      using bin by (simp add: gl_load_shader_def Let_def)
  qed
  have none: "gl_load_binary_shader e ?fb type ?w1 = None \<longrightarrow>
      gl_load_shader e basename type w = None"
    by (simp add: gl_load_shader_def Let_def)
  have noext: "\<not> advertised (glGetString_r e
                 (calls w @ [GstLog GST_LEVEL_DEBUG ''Load binary shader from %s'' [ArgS ?fb]])
                 GL_EXTENSIONS) ''GL_NV_platform_binary'' \<longrightarrow>
      (\<exists>w2. gl_load_binary_shader e ?fb type ?w1 = Some (0, w2))"
    by (simp add: binary_defs)
  show ?thesis using paths some none noext by blast
qed

theorem gl_load_shader_fallback_witness:
  "(\<exists>w2 w'. gl_load_binary_shader binary_env (shader_path binary_env ''vertex'' SHADER_EXT_BINARY)
                GL_VERTEX_SHADER
                (gst_log GST_LEVEL_DEBUG ''Load binary shader from %s''
                   [ArgS (shader_path binary_env ''vertex'' SHADER_EXT_BINARY)] world0)
                = Some (1, w2)
            \<and> gl_load_shader binary_env ''vertex'' GL_VERTEX_SHADER world0 = Some (1, w')
            \<and> (\<forall>r. GFileLoadContents (shader_path binary_env ''vertex'' SHADER_EXT_SOURCE) r
                      \<notin> set (calls_since world0 w')))
   \<and> (\<exists>w2. gl_load_binary_shader source_env (shader_path source_env ''vertex'' SHADER_EXT_BINARY)
                GL_VERTEX_SHADER
                (gst_log GST_LEVEL_DEBUG ''Load binary shader from %s''
                   [ArgS (shader_path source_env ''vertex'' SHADER_EXT_BINARY)] world0)
                = Some (0, w2)
            \<and> gl_load_shader source_env ''vertex'' GL_VERTEX_SHADER world0 =
                (case gl_load_source_shader source_env
                        (shader_path source_env ''vertex'' SHADER_EXT_SOURCE) GL_VERTEX_SHADER
                        (gst_log GST_LEVEL_DEBUG ''Load source shader from %s''
                           [ArgS (shader_path source_env ''vertex'' SHADER_EXT_SOURCE)]
                           (g_free (Some (shader_path source_env ''vertex'' SHADER_EXT_BINARY)) w2)) of
                   None \<Rightarrow> None
                 | Some (shader, w5) \<Rightarrow>
                     Some (shader,
                           g_free (Some (shader_path source_env ''vertex'' SHADER_EXT_SOURCE)) w5)))
   \<and> gl_load_binary_shader lp64_env (shader_path lp64_env ''vertex'' SHADER_EXT_BINARY)
        GL_VERTEX_SHADER
        (gst_log GST_LEVEL_DEBUG ''Load binary shader from %s''
           [ArgS (shader_path lp64_env ''vertex'' SHADER_EXT_BINARY)] world0) = None
   \<and> gl_load_shader lp64_env ''vertex'' GL_VERTEX_SHADER world0 = None"
proof -
  let ?fb = "shader_path binary_env ''vertex'' SHADER_EXT_BINARY"
  let ?w1 = "gst_log GST_LEVEL_DEBUG ''Load binary shader from %s'' [ArgS ?fb] world0"
  have "map_option fst (gl_load_binary_shader binary_env ?fb GL_VERTEX_SHADER ?w1) = Some 1"
    by (simp add: run_defs binary_env_def)
  then obtain w2 where
    bin: "gl_load_binary_shader binary_env ?fb GL_VERTEX_SHADER ?w1 = Some (1, w2)"
    by auto
  have one: "(1 :: GLuint) \<noteq> 0" by simp
  note t1 = gl_load_shader_fallback [of binary_env "''vertex''" GL_VERTEX_SHADER world0 1 w2]
  from t1 [THEN conjunct2, THEN conjunct2, THEN conjunct1, THEN mp, OF bin,
           THEN conjunct1, THEN mp, OF one]
  obtain w' where
    "gl_load_shader binary_env ''vertex'' GL_VERTEX_SHADER world0 = Some (1, w')"
    "\<forall>r. GFileLoadContents (shader_path binary_env ''vertex'' SHADER_EXT_SOURCE) r
           \<notin> set (calls_since world0 w')"
    by blast
  with bin
  have first: "\<exists>w2 w'. gl_load_binary_shader binary_env ?fb GL_VERTEX_SHADER ?w1 = Some (1, w2)
            \<and> gl_load_shader binary_env ''vertex'' GL_VERTEX_SHADER world0 = Some (1, w')
            \<and> (\<forall>r. GFileLoadContents (shader_path binary_env ''vertex'' SHADER_EXT_SOURCE) r
                      \<notin> set (calls_since world0 w'))"
    by blast
  let ?gb = "shader_path source_env ''vertex'' SHADER_EXT_BINARY"
  let ?v1 = "gst_log GST_LEVEL_DEBUG ''Load binary shader from %s'' [ArgS ?gb] world0"
  note t2 = gl_load_shader_fallback [of source_env "''vertex''" GL_VERTEX_SHADER world0 0 world0]
  from t2 [THEN conjunct2, THEN conjunct2, THEN conjunct2, THEN conjunct2, THEN mp,
           OF not_advertised_source_env]
  obtain v2 where bin2: "gl_load_binary_shader source_env ?gb GL_VERTEX_SHADER ?v1 = Some (0, v2)"
    by blast
  note t3 = gl_load_shader_fallback [of source_env "''vertex''" GL_VERTEX_SHADER world0 0 v2]
  note miss = t3 [THEN conjunct2, THEN conjunct2, THEN conjunct1, THEN mp, OF bin2,
                  THEN conjunct2, THEN mp, OF refl]
  from bin2 miss
  have second: "\<exists>w2. gl_load_binary_shader source_env ?gb GL_VERTEX_SHADER ?v1 = Some (0, w2)
            \<and> gl_load_shader source_env ''vertex'' GL_VERTEX_SHADER world0 =
                (case gl_load_source_shader source_env
                        (shader_path source_env ''vertex'' SHADER_EXT_SOURCE) GL_VERTEX_SHADER
                        (gst_log GST_LEVEL_DEBUG ''Load source shader from %s''
                           [ArgS (shader_path source_env ''vertex'' SHADER_EXT_SOURCE)]
                           (g_free (Some ?gb) w2)) of
                   None \<Rightarrow> None
                 | Some (shader, w5) \<Rightarrow>
                     Some (shader,
                           g_free (Some (shader_path source_env ''vertex'' SHADER_EXT_SOURCE)) w5))"
    by (intro exI [of _ v2] conjI)
  let ?lb = "shader_path lp64_env ''vertex'' SHADER_EXT_BINARY"
  let ?l1 = "gst_log GST_LEVEL_DEBUG ''Load binary shader from %s'' [ArgS ?lb] world0"
  have undef: "gl_load_binary_shader lp64_env ?lb GL_VERTEX_SHADER ?l1 = None"
    by (simp add: run_defs lp64_env_def binary_env_def)
  note t4 = gl_load_shader_fallback [of lp64_env "''vertex''" GL_VERTEX_SHADER world0 0 world0]
  note third = t4 [THEN conjunct2, THEN conjunct2, THEN conjunct2, THEN conjunct1, THEN mp,
                   OF undef]
  show ?thesis
    by (intro conjI) (rule first, rule second, rule undef, rule third)
qed

subsection \<open>C5: teardown\<close>

text \<open>
  Claim C5, as amended. \<^verbatim>\<open>gl_delete_shader\<close> releases, without any test, the vertex stage
  handle, then the fragment stage handle, then the program object, and leaves 0 in all
  three fields. (The claim has the two stages in the other order.)
\<close>

theorem gl_delete_shader_order:
  "gl_delete_shader shader w =
     (shader\<lparr>vertex_shader := 0, fragment_shader := 0, program := 0\<rparr>,
      w\<lparr>calls := calls w @ [GlDeleteShader (vertex_shader shader),
                             GlDeleteShader (fragment_shader shader),
                             GlDeleteProgram (program shader)],
         programs := (programs w)(program shader := None)\<rparr>)"
  by (simp add: gl_delete_shader_def prim_defs Let_def)

theorem gl_delete_shader_order_counterexample:
  "calls (snd (gl_delete_shader shader123 world0))
     \<noteq> calls world0 @ [GlDeleteShader (fragment_shader shader123),
                        GlDeleteShader (vertex_shader shader123),
                        GlDeleteProgram (program shader123)]"
  by (simp add: gl_delete_shader_def prim_defs Let_def shader123_def world0_def)

subsection \<open>C6: the length of the submitted source\<close>

text \<open>
  Claim C6, as amended. When the shader object is created and the file is read,
  \<^verbatim>\<open>gl_load_source_shader\<close> returns, and the first calls it makes are the creation, the
  two file calls and one \<^verbatim>\<open>glShaderSource\<close>, the only one, with the buffer as read and
  the length \<^verbatim>\<open>strlen\<close> of that buffer: the number of bytes before the first NUL byte.
  For a file of less than \<open>2^31\<close> bytes this is the length of the file exactly when the
  file holds no NUL byte. (The claim has the full length of the file in every case.)
\<close>

theorem gl_load_source_shader_length:
  assumes created: "glCreateShader_r e (calls w) type = shader" "shader \<noteq> 0"
    and read: "g_file_load_contents_r e
                 (calls w @ [GlCreateShader type shader, GFileNewForPath shader_filename])
                 shader_filename = Inr shader_src"
  shows "\<exists>r w' rest.
           gl_load_source_shader e shader_filename type w = Some (r, w')
         \<and> calls w' = calls w @ [GlCreateShader type shader, GFileNewForPath shader_filename,
                                  GFileLoadContents shader_filename (Inr shader_src),
                                  GlShaderSource shader shader_src
                                    (gsize_as_GLint (strlen shader_src))] @ rest
         \<and> (\<forall>s src n. GlShaderSource s src n \<notin> set rest)
         \<and> strlen shader_src = length (takeWhile (\<lambda>c. c \<noteq> CHR 0x00) shader_src)
         \<and> (length shader_src < 2 ^ 31 \<longrightarrow>
              gsize_as_GLint (strlen shader_src) = int (strlen shader_src)
            \<and> (gsize_as_GLint (strlen shader_src) = int (length shader_src)
                 \<longleftrightarrow> CHR 0x00 \<notin> set shader_src))"
proof -
  have run: "\<exists>r w' rest.
           gl_load_source_shader e shader_filename type w = Some (r, w')
         \<and> calls w' = calls w @ [GlCreateShader type shader, GFileNewForPath shader_filename,
                                  GFileLoadContents shader_filename (Inr shader_src),
                                  GlShaderSource shader shader_src
                                    (gsize_as_GLint (strlen shader_src))] @ rest
         \<and> (\<forall>s src n. GlShaderSource s src n \<notin> set rest)"
    using assms by (simp add: source_defs split: prod.splits)
  have len: "length shader_src < 2 ^ 31 \<longrightarrow>
              gsize_as_GLint (strlen shader_src) = int (strlen shader_src)
            \<and> (gsize_as_GLint (strlen shader_src) = int (length shader_src)
                 \<longleftrightarrow> CHR 0x00 \<notin> set shader_src)"
  proof
    assume "length shader_src < 2 ^ 31"
    with strlen_le [of shader_src] have "strlen shader_src < 2 ^ 31" by simp
    then show "gsize_as_GLint (strlen shader_src) = int (strlen shader_src)
            \<and> (gsize_as_GLint (strlen shader_src) = int (length shader_src)
                 \<longleftrightarrow> CHR 0x00 \<notin> set shader_src)"
      by (simp add: gsize_as_GLint_small strlen_eq_length_iff)
  qed
  have "strlen shader_src = length (takeWhile (\<lambda>c. c \<noteq> CHR 0x00) shader_src)"
    by (simp add: strlen_def)
  with run len show ?thesis by blast
qed

theorem gl_load_source_shader_length_counterexample:
  "gl_load_source_shader nul_env ''/s/copy.glsl'' GL_FRAGMENT_SHADER world0 =
     Some (2, \<lparr>calls = [GlCreateShader GL_FRAGMENT_SHADER 2,
                         GFileNewForPath ''/s/copy.glsl'',
                         GFileLoadContents ''/s/copy.glsl'' (Inr nul_text),
                         GlShaderSource 2 nul_text 2,
                         GFree (Some nul_text),
                         GObjectUnref ''/s/copy.glsl'',
                         GlCompileShader 2,
                         GlGetShaderiv 2 GL_COMPILE_STATUS 1,
                         GstLog GST_LEVEL_DEBUG ''Shader compiled succesfully'' []],
               programs = Map.empty\<rparr>)
   \<and> length nul_text = 5"
  by (simp add: gl_load_source_shader_def prim_defs Let_def nul_env_def demo_env_def
      every_file_def nul_text_def world0_def strlen_def gsize_as_GLint_def const_defs)

theorem gl_load_source_shader_length_witness:
  "glCreateShader_r nul_env (calls world0) GL_FRAGMENT_SHADER = 2 \<and> (2 :: GLuint) \<noteq> 0
   \<and> g_file_load_contents_r nul_env
        (calls world0 @ [GlCreateShader GL_FRAGMENT_SHADER 2, GFileNewForPath ''/s/copy.glsl''])
        ''/s/copy.glsl'' = Inr nul_text
   \<and> length nul_text < 2 ^ 31
   \<and> (\<exists>r w' rest.
         gl_load_source_shader nul_env ''/s/copy.glsl'' GL_FRAGMENT_SHADER world0 = Some (r, w')
       \<and> calls w' = calls world0 @ [GlCreateShader GL_FRAGMENT_SHADER 2,
                                     GFileNewForPath ''/s/copy.glsl'',
                                     GFileLoadContents ''/s/copy.glsl'' (Inr nul_text),
                                     GlShaderSource 2 nul_text 2] @ rest)
   \<and> gsize_as_GLint (strlen nul_text) \<noteq> int (length nul_text)"
proof -
  have c: "glCreateShader_r nul_env (calls world0) GL_FRAGMENT_SHADER = 2"
    by (simp add: nul_env_def demo_env_def const_defs)
  have nz: "(2 :: GLuint) \<noteq> 0" by simp
  have r: "g_file_load_contents_r nul_env
        (calls world0 @ [GlCreateShader GL_FRAGMENT_SHADER 2, GFileNewForPath ''/s/copy.glsl''])
        ''/s/copy.glsl'' = Inr nul_text"
    by (simp add: nul_env_def demo_env_def every_file_def)
  have l: "length nul_text < 2 ^ 31" by (simp add: nul_text_def)
  have s: "strlen nul_text = 2" by (simp add: strlen_def nul_text_def)
  have n: "CHR 0x00 \<in> set nul_text" by (simp add: nul_text_def)
  from gl_load_source_shader_length [OF c nz r] l s n c r
  show ?thesis by auto
qed

subsection \<open>C7: no binary-shader extension\<close>

text \<open>
  Claim C7. If the extension string the driver returns does not contain
  \<^verbatim>\<open>GL_NV_platform_binary\<close> (or the driver returns no string), \<^verbatim>\<open>gl_load_binary_shader\<close>
  returns 0 after two calls, the query of the extension string and a warning in the log:
  it creates no file object, reads no file and creates no shader object. Nothing on this
  path is undefined: the function returns.
\<close>

theorem gl_load_binary_shader_unsupported:
  assumes "\<not> advertised (glGetString_r e (calls w) GL_EXTENSIONS) ''GL_NV_platform_binary''"
  shows "gl_load_binary_shader e filename type w =
     Some (0, w\<lparr>calls := calls w @
                   [GlGetString GL_EXTENSIONS (glGetString_r e (calls w) GL_EXTENSIONS),
                    GstLog GST_LEVEL_WARNING
                      ''Binary shaders are not supported, falling back to source shaders.'' []]\<rparr>)"
  using assms by (simp add: binary_defs)

theorem gl_load_binary_shader_unsupported_witness:
  "\<not> advertised (glGetString_r source_env (calls world0) GL_EXTENSIONS) ''GL_NV_platform_binary''
   \<and> gl_load_binary_shader source_env ''/s/vertex.glsh'' GL_VERTEX_SHADER world0 =
       Some (0, \<lparr>calls = [GlGetString GL_EXTENSIONS (Some ''GL_OES_depth24 GL_OES_texture_npot''),
                           GstLog GST_LEVEL_WARNING
                             ''Binary shaders are not supported, falling back to source shaders.'' []],
                  programs = Map.empty\<rparr>)"
proof -
  have h: "\<not> advertised (glGetString_r source_env (calls world0) GL_EXTENSIONS)
              ''GL_NV_platform_binary''"
    by (rule not_advertised_source_env)
  from gl_load_binary_shader_unsupported [OF h, of "''/s/vertex.glsh''" GL_VERTEX_SHADER] h
  show ?thesis
    by (simp add: world0_def source_env_def demo_env_def)
qed

subsection \<open>C8: the binary loader with the extension\<close>

text \<open>
  Claim C8. With the extension advertised, the binary loader is to return a non-zero
  handle only when the creation, the read and the submission succeed with no driver error
  after the submission, to delete the shader object it created and return 0 on each
  failure, and to release the buffer and the file object in all cases. Where a \<^verbatim>\<open>gsize\<close>
  is no wider than a \<^verbatim>\<open>GLsizei\<close> the code does (\<open>gl_load_binary_shader_outcomes\<close>). Where
  it is wider the code does not: on a target with a \<^verbatim>\<open>gsize\<close> of eight bytes, with the
  extension advertised, shader object 1 created and the file read, the store of the
  length runs beyond \<^verbatim>\<open>length\<close> and the function is undefined from there on, while
  the same run with a \<^verbatim>\<open>gsize\<close> of four bytes makes the eight calls of a successful load
  and returns handle 1.
\<close>

theorem gl_load_binary_shader_overrun_example:
  "advertised (glGetString_r lp64_env (calls world0) GL_EXTENSIONS) ''GL_NV_platform_binary''
   \<and> sizeof_gsize lp64_env = 8
   \<and> sizeof_GLsizei = 4
   \<and> gl_load_binary_shader lp64_env ''/s/vertex.glsh'' GL_VERTEX_SHADER world0 = None
   \<and> binary_env = lp64_env\<lparr>sizeof_gsize := 4\<rparr>
   \<and> gl_load_binary_shader binary_env ''/s/vertex.glsh'' GL_VERTEX_SHADER world0 =
       Some (1, \<lparr>calls = [GlGetString GL_EXTENSIONS (Some ''GL_OES_depth24 GL_NV_platform_binary''),
                           GFileNewForPath ''/s/vertex.glsh'',
                           GlCreateShader GL_VERTEX_SHADER 1,
                           GFileLoadContents ''/s/vertex.glsh'' (Inr ''BLOB''),
                           GlShaderBinary [1] GL_NVIDIA_PLATFORM_BINARY_NV ''BLOB'' 4,
                           GlGetError GL_NO_ERROR,
                           GFree (Some ''BLOB''),
                           GObjectUnref ''/s/vertex.glsh''],
                  programs = Map.empty\<rparr>)"
proof -
  have adv: "advertised (glGetString_r lp64_env (calls world0) GL_EXTENSIONS)
               ''GL_NV_platform_binary''"
    using advertised_binary_env [of "calls world0"]
    by (simp add: lp64_env_def binary_env_def demo_env_def)
  have undef: "gl_load_binary_shader lp64_env ''/s/vertex.glsh'' GL_VERTEX_SHADER world0 = None"
    by (simp add: run_defs lp64_env_def binary_env_def)
  have same: "binary_env = lp64_env\<lparr>sizeof_gsize := 4\<rparr>"
    by (simp add: lp64_env_def binary_env_def demo_env_def)
  have def: "gl_load_binary_shader binary_env ''/s/vertex.glsh'' GL_VERTEX_SHADER world0 =
       Some (1, \<lparr>calls = [GlGetString GL_EXTENSIONS (Some ''GL_OES_depth24 GL_NV_platform_binary''),
                           GFileNewForPath ''/s/vertex.glsh'',
                           GlCreateShader GL_VERTEX_SHADER 1,
                           GFileLoadContents ''/s/vertex.glsh'' (Inr ''BLOB''),
                           GlShaderBinary [1] GL_NVIDIA_PLATFORM_BINARY_NV ''BLOB'' 4,
                           GlGetError GL_NO_ERROR,
                           GFree (Some ''BLOB''),
                           GObjectUnref ''/s/vertex.glsh''],
                  programs = Map.empty\<rparr>)"
    by (simp add: run_defs binary_env_def gsize_as_GLint_def)
  have sz: "sizeof_gsize lp64_env = 8"
    by (simp add: lp64_env_def)
  have four: "sizeof_GLsizei = 4"
    by (simp add: sizeof_GLsizei_def)
  show ?thesis
    using adv sz four undef same def by blast
qed

subsection \<open>C10: the table of basenames\<close>

text \<open>
  Claim C10. The table has two entries; the lookup with \<^verbatim>\<open>process_type\<close> is defined
  exactly for \<^verbatim>\<open>SHADER_DEINT_LINEAR\<close>, where it gives \<open>deint_linear\<close>, and
  \<^verbatim>\<open>SHADER_COPY\<close>, where it gives \<open>copy\<close>. Once the vertex stage is loaded,
  \<^verbatim>\<open>gl_load_shaders\<close> loads the fragment stage under the basename the lookup gives, with
  no check of its own: for an enumerated kind the undefined branch is not taken, and for
  any other value the behaviour is undefined.
\<close>

theorem shader_basenames_lookup:
  assumes vertex: "gl_load_shader e VERTEX_SHADER_BASENAME GL_VERTEX_SHADER w = Some (v, w1)"
    and loaded: "v \<noteq> 0"
  shows "length shader_basenames = 2
       \<and> shader_basenames_at SHADER_DEINT_LINEAR = Some ''deint_linear''
       \<and> shader_basenames_at SHADER_COPY = Some ''copy''
       \<and> ((process_type = SHADER_DEINT_LINEAR \<or> process_type = SHADER_COPY)
            = (shader_basenames_at process_type \<noteq> None))
       \<and> gl_load_shaders e shader process_type w =
           (case shader_basenames_at process_type of
              None \<Rightarrow> None
            | Some basename \<Rightarrow>
                (case gl_load_shader e basename GL_FRAGMENT_SHADER w1 of
                   None \<Rightarrow> None
                 | Some (f, w2) \<Rightarrow>
                     Some (if f = 0 then - EINVAL else 0,
                           shader\<lparr>vertex_shader := v, fragment_shader := f\<rparr>, w2)))"
proof -
  have t: "length shader_basenames = 2
       \<and> shader_basenames_at SHADER_DEINT_LINEAR = Some ''deint_linear''
       \<and> shader_basenames_at SHADER_COPY = Some ''copy''
       \<and> ((process_type = SHADER_DEINT_LINEAR \<or> process_type = SHADER_COPY)
            = (shader_basenames_at process_type \<noteq> None))"
    by (auto simp: shader_basenames_at_def shader_basenames_def SHADER_DEINT_LINEAR_def
        SHADER_COPY_def)
  have l: "gl_load_shaders e shader process_type w =
           (case shader_basenames_at process_type of
              None \<Rightarrow> None
            | Some basename \<Rightarrow>
                (case gl_load_shader e basename GL_FRAGMENT_SHADER w1 of
                   None \<Rightarrow> None
                 | Some (f, w2) \<Rightarrow>
                     Some (if f = 0 then - EINVAL else 0,
                           shader\<lparr>vertex_shader := v, fragment_shader := f\<rparr>, w2)))"
    using assms by (simp add: gl_load_shaders_def Let_def split: option.splits)
  show ?thesis using t l by blast
qed

theorem shader_basenames_lookup_witness:
  "(\<exists>w1. gl_load_shader source_env VERTEX_SHADER_BASENAME GL_VERTEX_SHADER world0 = Some (1, w1)
     \<and> (1 :: GLuint) \<noteq> 0
     \<and> shader_basenames_at SHADER_COPY \<noteq> None
     \<and> gl_load_shaders source_env shader0 SHADER_COPY world0 =
         (case gl_load_shader source_env ''copy'' GL_FRAGMENT_SHADER w1 of
            None \<Rightarrow> None
          | Some (f, w2) \<Rightarrow>
              Some (if f = 0 then - EINVAL else 0,
                    shader0\<lparr>vertex_shader := 1, fragment_shader := f\<rparr>, w2))
     \<and> gl_load_shaders source_env shader0 7 world0 = None)"
proof -
  have "map_option fst (gl_load_shader source_env VERTEX_SHADER_BASENAME GL_VERTEX_SHADER world0)
          = Some 1"
    by (simp add: run_defs source_env_def)
  then obtain w1 where
    v: "gl_load_shader source_env VERTEX_SHADER_BASENAME GL_VERTEX_SHADER world0 = Some (1, w1)"
    by auto
  have one: "(1 :: GLuint) \<noteq> 0" by simp
  have seven: "shader_basenames_at 7 = None"
    using shader_basenames_lookup [OF v one, of 7 shader0]
    by (simp add: SHADER_DEINT_LINEAR_def SHADER_COPY_def)
  from shader_basenames_lookup [OF v one, of SHADER_COPY shader0]
       shader_basenames_lookup [OF v one, of 7 shader0] seven v
  show ?thesis by auto
qed

subsection \<open>Auxiliary facts about \<^verbatim>\<open>gl_init_shader\<close>\<close>

lemma gl_init_shader_cases:
  assumes run: "gl_init_shader e shader pt w = Some (ret, shader', w')"
  shows "(\<exists>w1. glCreateProgram e w = (0, w1) \<and> ret = - ENOMEM \<and> shader' = shader\<lparr>program := 0\<rparr>
             \<and> w' = gst_log GST_LEVEL_ERROR ''Could not create GL program'' [] w1)
       \<or> (\<exists>p w1 shader2 w2. glCreateProgram e w = (p, w1) \<and> p \<noteq> 0
             \<and> gl_load_shaders e (shader\<lparr>program := p\<rparr>) pt w1 = Some (- EINVAL, shader2, w2)
             \<and> ret = - EINVAL \<and> shader' = shader2
             \<and> w' = gst_log GST_LEVEL_ERROR ''Could not create GL shaders: %d'' [ArgI (- EINVAL)] w2)
       \<or> (\<exists>p w1 shader2 w2. glCreateProgram e w = (p, w1) \<and> p \<noteq> 0
             \<and> gl_load_shaders e (shader\<lparr>program := p\<rparr>) pt w1 = Some (0, shader2, w2))"
proof -
  obtain p w1 where prog: "glCreateProgram e w = (p, w1)"
    by (cases "glCreateProgram e w")
  show ?thesis
  proof (cases "p = 0")
    case True
    then show ?thesis
      using run prog by (auto simp: gl_init_shader_def)
  next
    case nz: False
    show ?thesis
    proof (cases "gl_load_shaders e (shader\<lparr>program := p\<rparr>) pt w1")
      case None
      then show ?thesis
        using run prog nz by (simp add: gl_init_shader_def)
    next
      case (Some r)
      then obtain ret2 shader2 w2 where
        load: "gl_load_shaders e (shader\<lparr>program := p\<rparr>) pt w1 = Some (ret2, shader2, w2)"
        by (cases r) auto
      from gl_load_shaders_result(5) [OF load] show ?thesis
      proof
        assume "ret2 = 0"
        then show ?thesis using prog nz load by blast
      next
        assume neg: "ret2 = - EINVAL"
        then have "ret2 < 0" by (simp add: EINVAL_def)
        then have "gl_init_shader e shader pt w =
            Some (ret2, shader2,
                  gst_log GST_LEVEL_ERROR ''Could not create GL shaders: %d'' [ArgI ret2] w2)"
          using prog nz load by (simp add: gl_init_shader_def)
        then show ?thesis using run prog nz load neg by auto
      qed
    qed
  qed
qed

lemma attach_calls_shape:
  "\<exists>err err2. attach_calls e p shader2 h =
       h @ [GlAttachShader p (vertex_shader shader2), GlGetError err]
         @ attach_log ''Error while attaching the vertex shader: 0x%04x\<newline>'' err
         @ [GlAttachShader p (fragment_shader shader2), GlGetError err2]
         @ attach_log ''Error while attaching the fragment shader: 0x%04x\<newline>'' err2"
  by (simp add: attach_calls_def Let_def)

lemma attach_calls_no_program_call:
  "\<exists>xs. attach_calls e p shader2 h = h @ xs
     \<and> (\<forall>q n v. GlGetProgramiv q n v \<notin> set xs)
     \<and> (\<forall>s. GlDeleteShader s \<notin> set xs)
     \<and> (\<forall>q n l. GlGetProgramInfoLog q n l \<notin> set xs)"
  by (simp add: attach_calls_def Let_def attach_log_def)

lemma map_of_place_attribute:
  "map_of (map (place_attribute bound_program) attrs) n =
     map_option (\<lambda>l. if n = ''vPosition'' then 0 else l) (map_of attrs n)"
  by (induction attrs) (auto simp: place_attribute_def bound_program_def)

lemma attrib_loc_vPosition:
  "attrib_loc (linked_program attrs) ''vPosition'' =
     (if ''vPosition'' \<in> fst ` set (active (linked_program attrs)) then 0 else - 1)"
proof -
  have "fst ` set (map (place_attribute bound_program) attrs) = fst ` set attrs"
    by (induction attrs) (auto simp: place_attribute_def split: option.splits)
  then show ?thesis
    by (auto simp: attrib_loc_def linked_program_def map_of_place_attribute
        map_of_eq_None_iff [symmetric] split: option.splits)
qed

text \<open>
  When a stage fails to load, \<^verbatim>\<open>gl_init_shader\<close> returns what \<^verbatim>\<open>gl_load_shaders\<close>
  returned, after one message: the program object it created is still there, and its
  handle is still in the structure. (On a failed link, by contrast, the program object
  is deleted.)
\<close>

lemma gl_init_shader_stage_failure:
  assumes prog: "glCreateProgram e w = (p, w1)" and nz: "p \<noteq> 0"
    and load: "gl_load_shaders e (shader\<lparr>program := p\<rparr>) pt w1 = Some (- EINVAL, shader2, w2)"
  shows "\<exists>w'. gl_init_shader e shader pt w = Some (- EINVAL, shader2, w')
           \<and> calls w' = calls w2 @ [GstLog GST_LEVEL_ERROR ''Could not create GL shaders: %d''
                                       [ArgI (- EINVAL)]]
           \<and> program shader2 = p
           \<and> programs w' p = Some \<lparr>bound = Map.empty, link_ok = False, active = []\<rparr>"
proof -
  have "programs w2 p = Some \<lparr>bound = Map.empty, link_ok = False, active = []\<rparr>"
    using gl_load_shaders_result(1) [OF load] glCreateProgram_fresh [OF prog nz] by simp
  moreover have "program shader2 = p"
    using gl_load_shaders_result(2) [OF load] by simp
  ultimately show ?thesis
    using prog nz load by (simp add: gl_init_shader_def EINVAL_def gst_log_def emit_def)
qed

text \<open>The concrete environments: the program object, the two stages, the link.\<close>

lemma demo_prog:
  "glCreateProgram (demo_env x f g c l) world0 = (3, snd (glCreateProgram (demo_env x f g c l) world0))"
  by (simp add: glCreateProgram_def demo_env_def Let_def)

lemma demo_load:
  "\<exists>shader2 w2.
     gl_load_shaders (demo_env (Some ''GL_OES_depth24 GL_OES_texture_npot'')
                        (every_file ''void main() {}'') g 1 l)
       (shader0\<lparr>program := 3\<rparr>) SHADER_COPY
       (snd (glCreateProgram (demo_env (Some ''GL_OES_depth24 GL_OES_texture_npot'')
                                (every_file ''void main() {}'') g 1 l) world0))
     = Some (0, shader2, w2)"
  by (simp add: run_defs)

lemma demo_link: "glLinkProgram_r (demo_env x f g c l) h p = l"
  by (simp add: demo_env_def)

lemma three: "(3 :: GLuint) \<noteq> 0"
  by simp

subsection \<open>C9: attach errors are logged and the link goes ahead\<close>

text \<open>
  Claim C9. Once the program object exists and both stages are loaded,
  \<^verbatim>\<open>gl_init_shader\<close> returns, and its log goes on from the log after the load with: the
  attach of the vertex stage, \<^verbatim>\<open>glGetError\<close>, an error message if that returned an error;
  the same three for the fragment stage; then the binding of index 0 to \<open>vPosition\<close> and
  \<^verbatim>\<open>glLinkProgram\<close>, whatever the two \<^verbatim>\<open>glGetError\<close> calls returned.
\<close>

theorem gl_init_shader_attach_errors:
  assumes prog: "glCreateProgram e w = (p, w1)" and nz: "p \<noteq> 0"
    and load: "gl_load_shaders e (shader\<lparr>program := p\<rparr>) process_type w1 = Some (0, shader2, w2)"
  shows "\<exists>ret shader' w' err err2.
           gl_init_shader e shader process_type w = Some (ret, shader', w')
         \<and> err = glGetError_r e (calls w2 @ [GlAttachShader p (vertex_shader shader2)])
         \<and> attach_calls e p shader2 (calls w2) =
             calls w2 @ [GlAttachShader p (vertex_shader shader2), GlGetError err]
               @ attach_log ''Error while attaching the vertex shader: 0x%04x\<newline>'' err
               @ [GlAttachShader p (fragment_shader shader2), GlGetError err2]
               @ attach_log ''Error while attaching the fragment shader: 0x%04x\<newline>'' err2
         \<and> prefix (attach_calls e p shader2 (calls w2)
                     @ [GlBindAttribLocation p 0 ''vPosition'', GlLinkProgram p])
                  (calls w')"
proof -
  let ?h = "attach_calls e p shader2 (calls w2)"
  have shape: "\<exists>err2. ?h =
       calls w2 @ [GlAttachShader p (vertex_shader shader2),
                   GlGetError (glGetError_r e (calls w2 @ [GlAttachShader p (vertex_shader shader2)]))]
         @ attach_log ''Error while attaching the vertex shader: 0x%04x\<newline>''
             (glGetError_r e (calls w2 @ [GlAttachShader p (vertex_shader shader2)]))
         @ [GlAttachShader p (fragment_shader shader2), GlGetError err2]
         @ attach_log ''Error while attaching the fragment shader: 0x%04x\<newline>'' err2"
    by (simp add: attach_calls_def Let_def)
  have "\<exists>ret shader' w'. gl_init_shader e shader process_type w = Some (ret, shader', w')
          \<and> prefix (?h @ [GlBindAttribLocation p 0 ''vPosition'', GlLinkProgram p]) (calls w')"
  proof (cases "glLinkProgram_r e (?h @ [GlBindAttribLocation p 0 ''vPosition'']) p")
    case None
    from gl_init_shader_link_failed [OF prog nz load None]
    show ?thesis by (auto simp: prefix_def)
  next
    case (Some attrs)
    from gl_init_shader_link_ok [OF prog nz load Some]
    show ?thesis by (auto simp: prefix_def)
  qed
  with shape show ?thesis by blast
qed

theorem gl_init_shader_attach_errors_witness:
  "\<exists>p w1 shader2 w2.
      glCreateProgram attach_error_env world0 = (p, w1) \<and> p \<noteq> 0
    \<and> gl_load_shaders attach_error_env (shader0\<lparr>program := p\<rparr>) SHADER_COPY w1
          = Some (0, shader2, w2)
    \<and> glGetError_r attach_error_env (calls w2 @ [GlAttachShader p (vertex_shader shader2)])
          \<noteq> GL_NO_ERROR
    \<and> (\<exists>ret shader' w'.
          gl_init_shader attach_error_env shader0 SHADER_COPY world0 = Some (ret, shader', w')
        \<and> prefix (attach_calls attach_error_env p shader2 (calls w2)
                    @ [GlBindAttribLocation p 0 ''vPosition'', GlLinkProgram p])
                 (calls w'))"
proof -
  obtain shader2 w2 where
    load: "gl_load_shaders attach_error_env (shader0\<lparr>program := 3\<rparr>) SHADER_COPY
             (snd (glCreateProgram attach_error_env world0)) = Some (0, shader2, w2)"
    using demo_load unfolding attach_error_env_def by blast
  have prog: "glCreateProgram attach_error_env world0
                = (3, snd (glCreateProgram attach_error_env world0))"
    unfolding attach_error_env_def by (rule demo_prog)
  have err: "glGetError_r attach_error_env (calls w2 @ [GlAttachShader 3 (vertex_shader shader2)])
               \<noteq> GL_NO_ERROR"
    by (simp add: attach_error_env_def demo_env_def GL_NO_ERROR_def)
  from gl_init_shader_attach_errors [OF prog three load]
  obtain ret shader' w' where
    "gl_init_shader attach_error_env shader0 SHADER_COPY world0 = Some (ret, shader', w')"
    "prefix (attach_calls attach_error_env 3 shader2 (calls w2)
               @ [GlBindAttribLocation 3 0 ''vPosition'', GlLinkProgram 3])
            (calls w')"
    by blast
  with prog load err three show ?thesis by blast
qed

subsection \<open>C4: link failure\<close>

text \<open>
  Claim C4. Once the program object exists and both stages are loaded, if the link fails,
  \<^verbatim>\<open>gl_init_shader\<close> returns \<open>-EINVAL\<close> with the structure the load left, both stage
  handles in it non-zero. After the link its log has the query of the link status, which
  is 0, a message, the query of the length of the info log, the retrieval and report of
  that log exactly when the length is greater than 1 (\<open>link_log\<close>), and last the deletion
  of the program object, which is gone from the driver; no shader is deleted after the
  load.
\<close>

theorem gl_init_shader_link_failure:
  assumes prog: "glCreateProgram e w = (p, w1)" and nz: "p \<noteq> 0"
    and load: "gl_load_shaders e (shader\<lparr>program := p\<rparr>) process_type w1 = Some (0, shader2, w2)"
    and link: "glLinkProgram_r e (attach_calls e p shader2 (calls w2)
                 @ [GlBindAttribLocation p 0 ''vPosition'']) p = None"
  shows "\<exists>info_len info_log w'.
           gl_init_shader e shader process_type w = Some (- EINVAL, shader2, w')
         \<and> calls w' = attach_calls e p shader2 (calls w2)
              @ [GlBindAttribLocation p 0 ''vPosition'', GlLinkProgram p,
                 GlGetProgramiv p GL_LINK_STATUS 0,
                 GstLog GST_LEVEL_ERROR ''Linker failure'' [],
                 GlGetProgramiv p GL_INFO_LOG_LENGTH info_len]
              @ link_log p info_len info_log @ [GlDeleteProgram p]
         \<and> programs w' p = None
         \<and> program shader2 = p
         \<and> vertex_shader shader2 \<noteq> 0 \<and> fragment_shader shader2 \<noteq> 0
         \<and> (\<forall>s. GlDeleteShader s \<notin> set (calls_since w2 w'))"
proof -
  let ?h = "attach_calls e p shader2 (calls w2)"
  obtain xs where xs: "?h = calls w2 @ xs"
    and nd: "\<forall>s. GlDeleteShader s \<notin> set xs"
    using attach_calls_no_program_call [of e p shader2 "calls w2"] by blast
  have stages: "vertex_shader shader2 \<noteq> 0 \<and> fragment_shader shader2 \<noteq> 0"
    using gl_load_shaders_result(6) [OF load] by simp
  have p: "program shader2 = p"
    using gl_load_shaders_result(2) [OF load] by simp
  from gl_init_shader_link_failed [OF prog nz load link]
  obtain info_len info_log where
    res: "gl_init_shader e shader process_type w =
         Some (- EINVAL, shader2,
               w2\<lparr>programs := (programs w2)(p := None),
                  calls := ?h
                    @ [GlBindAttribLocation p 0 ''vPosition'', GlLinkProgram p,
                       GlGetProgramiv p GL_LINK_STATUS 0,
                       GstLog GST_LEVEL_ERROR ''Linker failure'' [],
                       GlGetProgramiv p GL_INFO_LOG_LENGTH info_len]
                    @ link_log p info_len info_log @ [GlDeleteProgram p]\<rparr>)"
    by blast
  let ?w' = "w2\<lparr>programs := (programs w2)(p := None),
                  calls := ?h
                    @ [GlBindAttribLocation p 0 ''vPosition'', GlLinkProgram p,
                       GlGetProgramiv p GL_LINK_STATUS 0,
                       GstLog GST_LEVEL_ERROR ''Linker failure'' [],
                       GlGetProgramiv p GL_INFO_LOG_LENGTH info_len]
                    @ link_log p info_len info_log @ [GlDeleteProgram p]\<rparr>"
  have log: "calls ?w' = ?h
                    @ [GlBindAttribLocation p 0 ''vPosition'', GlLinkProgram p,
                       GlGetProgramiv p GL_LINK_STATUS 0,
                       GstLog GST_LEVEL_ERROR ''Linker failure'' [],
                       GlGetProgramiv p GL_INFO_LOG_LENGTH info_len]
                    @ link_log p info_len info_log @ [GlDeleteProgram p]"
    by simp
  have since: "calls_since w2 ?w' =
        xs @ [GlBindAttribLocation p 0 ''vPosition'', GlLinkProgram p,
              GlGetProgramiv p GL_LINK_STATUS 0,
              GstLog GST_LEVEL_ERROR ''Linker failure'' [],
              GlGetProgramiv p GL_INFO_LOG_LENGTH info_len]
           @ link_log p info_len info_log @ [GlDeleteProgram p]"
    by (simp add: xs)
  have nodel: "\<forall>s. GlDeleteShader s \<notin> set (calls_since w2 ?w')"
    unfolding since using nd by (simp add: link_log_def)
  have gone: "programs ?w' p = None" by simp
  show ?thesis
    using res log gone p stages nodel by blast
qed

theorem gl_init_shader_link_failure_witness:
  "\<exists>p w1 shader2 w2.
      glCreateProgram link_failure_env world0 = (p, w1) \<and> p \<noteq> 0
    \<and> gl_load_shaders link_failure_env (shader0\<lparr>program := p\<rparr>) SHADER_COPY w1
          = Some (0, shader2, w2)
    \<and> glLinkProgram_r link_failure_env
          (attach_calls link_failure_env p shader2 (calls w2)
             @ [GlBindAttribLocation p 0 ''vPosition'']) p = None
    \<and> (\<exists>info_len info_log w'.
            gl_init_shader link_failure_env shader0 SHADER_COPY world0
              = Some (- EINVAL, shader2, w')
          \<and> calls w' = attach_calls link_failure_env p shader2 (calls w2)
               @ [GlBindAttribLocation p 0 ''vPosition'', GlLinkProgram p,
                  GlGetProgramiv p GL_LINK_STATUS 0,
                  GstLog GST_LEVEL_ERROR ''Linker failure'' [],
                  GlGetProgramiv p GL_INFO_LOG_LENGTH info_len]
               @ link_log p info_len info_log @ [GlDeleteProgram p]
          \<and> programs w' p = None
          \<and> vertex_shader shader2 \<noteq> 0 \<and> fragment_shader shader2 \<noteq> 0
          \<and> (\<forall>s. GlDeleteShader s \<notin> set (calls_since w2 w')))"
proof -
  obtain shader2 w2 where
    load: "gl_load_shaders link_failure_env (shader0\<lparr>program := 3\<rparr>) SHADER_COPY
             (snd (glCreateProgram link_failure_env world0)) = Some (0, shader2, w2)"
    using demo_load unfolding link_failure_env_def GL_NO_ERROR_def by blast
  have prog: "glCreateProgram link_failure_env world0
                = (3, snd (glCreateProgram link_failure_env world0))"
    unfolding link_failure_env_def by (rule demo_prog)
  have link: "glLinkProgram_r link_failure_env
                (attach_calls link_failure_env 3 shader2 (calls w2)
                   @ [GlBindAttribLocation 3 0 ''vPosition'']) 3 = None"
    unfolding link_failure_env_def by (rule demo_link)
  from gl_init_shader_link_failure [OF prog three load link]
  have "\<exists>info_len info_log w'.
            gl_init_shader link_failure_env shader0 SHADER_COPY world0
              = Some (- EINVAL, shader2, w')
          \<and> calls w' = attach_calls link_failure_env 3 shader2 (calls w2)
               @ [GlBindAttribLocation 3 0 ''vPosition'', GlLinkProgram 3,
                  GlGetProgramiv 3 GL_LINK_STATUS 0,
                  GstLog GST_LEVEL_ERROR ''Linker failure'' [],
                  GlGetProgramiv 3 GL_INFO_LOG_LENGTH info_len]
               @ link_log 3 info_len info_log @ [GlDeleteProgram 3]
          \<and> programs w' 3 = None
          \<and> vertex_shader shader2 \<noteq> 0 \<and> fragment_shader shader2 \<noteq> 0
          \<and> (\<forall>s. GlDeleteShader s \<notin> set (calls_since w2 w'))"
    by blast
  with prog three load link show ?thesis
    by - (rule exI [of _ 3], rule exI [of _ "snd (glCreateProgram link_failure_env world0)"],
          rule exI [of _ shader2], rule exI [of _ w2], (intro conjI; assumption))
qed

subsection \<open>C3: the location of the position attribute\<close>

text \<open>
  Claim C3, as amended. When \<^verbatim>\<open>gl_init_shader\<close> returns 0, that is when the link has
  succeeded, the log has the binding of index 0 to \<open>vPosition\<close> immediately before
  \<^verbatim>\<open>glLinkProgram\<close>, the linked program carries that binding, and the position location in
  the structure is 0 if \<open>vPosition\<close> is an active attribute of the linked program, and
  -1 if it is not. (The claim has 0 whenever the link succeeds.)
\<close>

theorem gl_init_shader_position:
  assumes run: "gl_init_shader e shader process_type w = Some (0, shader', w')"
  shows "(\<exists>pre post. calls w' =
            pre @ [GlBindAttribLocation (program shader') 0 ''vPosition'',
                   GlLinkProgram (program shader'),
                   GlGetProgramiv (program shader') GL_LINK_STATUS 1] @ post)
       \<and> (\<exists>prg. programs w' (program shader') = Some prg \<and> link_ok prg
             \<and> bound prg ''vPosition'' = Some 0
             \<and> position_loc shader' =
                 (if ''vPosition'' \<in> fst ` set (active prg) then 0 else - 1))"
proof -
  from gl_init_shader_cases [OF run]
  obtain p w1 shader2 w2 where prog: "glCreateProgram e w = (p, w1)" and nz: "p \<noteq> 0"
    and load: "gl_load_shaders e (shader\<lparr>program := p\<rparr>) process_type w1 = Some (0, shader2, w2)"
    by (auto simp: ENOMEM_def EINVAL_def)
  have p: "program shader2 = p"
    using gl_load_shaders_result(2) [OF load] by simp
  let ?h = "attach_calls e p shader2 (calls w2)"
  show ?thesis
  proof (cases "glLinkProgram_r e (?h @ [GlBindAttribLocation p 0 ''vPosition'']) p")
    case None
    from gl_init_shader_link_failed [OF prog nz load None] run
    show ?thesis by (simp add: EINVAL_def)
  next
    case (Some attrs)
    from gl_init_shader_link_ok [OF prog nz load Some] run
    have sh: "shader' = shader2\<lparr>position_loc := attrib_loc (linked_program attrs) ''vPosition'',
                                texcoord_loc := attrib_loc (linked_program attrs) ''aTexcoord''\<rparr>"
      and w': "w' = w2\<lparr>programs := (programs w2)(p \<mapsto> linked_program attrs),
                    calls := ?h
                      @ [GlBindAttribLocation p 0 ''vPosition'', GlLinkProgram p,
                         GlGetProgramiv p GL_LINK_STATUS 1, GlUseProgram p,
                         GlGetAttribLocation p ''vPosition''
                           (attrib_loc (linked_program attrs) ''vPosition''),
                         GlGetAttribLocation p ''aTexcoord''
                           (attrib_loc (linked_program attrs) ''aTexcoord''),
                         GlClearColor 0 0 0 1]\<rparr>"
      by simp_all
    have ps: "program shader' = p" using sh p by simp
    have "calls w' = ?h @ [GlBindAttribLocation p 0 ''vPosition'', GlLinkProgram p,
                           GlGetProgramiv p GL_LINK_STATUS 1]
                      @ [GlUseProgram p,
                         GlGetAttribLocation p ''vPosition''
                           (attrib_loc (linked_program attrs) ''vPosition''),
                         GlGetAttribLocation p ''aTexcoord''
                           (attrib_loc (linked_program attrs) ''aTexcoord''),
                         GlClearColor 0 0 0 1]"
      by (simp add: w')
    then have order: "\<exists>pre post. calls w' =
            pre @ [GlBindAttribLocation (program shader') 0 ''vPosition'',
                   GlLinkProgram (program shader'),
                   GlGetProgramiv (program shader') GL_LINK_STATUS 1] @ post"
      unfolding ps by blast
    have "programs w' (program shader') = Some (linked_program attrs)"
      by (simp add: w' ps)
    moreover have "link_ok (linked_program attrs)"
      and "bound (linked_program attrs) ''vPosition'' = Some 0"
      by (simp_all add: linked_program_def bound_program_def)
    moreover have "position_loc shader' =
        (if ''vPosition'' \<in> fst ` set (active (linked_program attrs)) then 0 else - 1)"
      using attrib_loc_vPosition [of attrs] by (simp add: sh)
    ultimately show ?thesis using order by blast
  qed
qed

theorem gl_init_shader_position_counterexample:
  "map_option fst (gl_init_shader no_position_env shader0 SHADER_COPY world0) = Some 0
   \<and> map_option (position_loc \<circ> fst \<circ> snd)
        (gl_init_shader no_position_env shader0 SHADER_COPY world0) = Some (- 1)"
proof -
  obtain shader2 w2 where
    load: "gl_load_shaders no_position_env (shader0\<lparr>program := 3\<rparr>) SHADER_COPY
             (snd (glCreateProgram no_position_env world0)) = Some (0, shader2, w2)"
    using demo_load unfolding no_position_env_def by blast
  have prog: "glCreateProgram no_position_env world0
                = (3, snd (glCreateProgram no_position_env world0))"
    unfolding no_position_env_def by (rule demo_prog)
  have link: "glLinkProgram_r no_position_env
                (attach_calls no_position_env 3 shader2 (calls w2)
                   @ [GlBindAttribLocation 3 0 ''vPosition'']) 3 = Some [(''aTexcoord'', 0)]"
    unfolding no_position_env_def by (rule demo_link)
  from gl_init_shader_link_ok [OF prog three load link]
  show ?thesis
    by (simp add: attrib_loc_def linked_program_def place_attribute_def bound_program_def)
qed

theorem gl_init_shader_position_witness:
  "\<exists>shader' w'. gl_init_shader source_env shader0 SHADER_COPY world0 = Some (0, shader', w')
     \<and> position_loc shader' = 0
     \<and> (\<exists>pre post. calls w' =
            pre @ [GlBindAttribLocation (program shader') 0 ''vPosition'',
                   GlLinkProgram (program shader'),
                   GlGetProgramiv (program shader') GL_LINK_STATUS 1] @ post)"
proof -
  obtain shader2 w2 where
    load: "gl_load_shaders source_env (shader0\<lparr>program := 3\<rparr>) SHADER_COPY
             (snd (glCreateProgram source_env world0)) = Some (0, shader2, w2)"
    using demo_load unfolding source_env_def GL_NO_ERROR_def by blast
  have prog: "glCreateProgram source_env world0 = (3, snd (glCreateProgram source_env world0))"
    unfolding source_env_def by (rule demo_prog)
  have link: "glLinkProgram_r source_env
                (attach_calls source_env 3 shader2 (calls w2)
                   @ [GlBindAttribLocation 3 0 ''vPosition'']) 3
              = Some [(''vPosition'', 1), (''aTexcoord'', 2)]"
    unfolding source_env_def by (rule demo_link)
  have p: "program shader2 = 3"
    using gl_load_shaders_result(2) [OF load] by simp
  from gl_init_shader_link_ok [OF prog three load link] p
  obtain shader' w' where
    run: "gl_init_shader source_env shader0 SHADER_COPY world0 = Some (0, shader', w')"
    and ps: "program shader' = 3"
    and prg: "programs w' 3 = Some (linked_program [(''vPosition'', 1), (''aTexcoord'', 2)])"
    by simp
  have act: "''vPosition'' \<in> fst ` set (active (linked_program [(''vPosition'', 1), (''aTexcoord'', 2)]))"
    by (simp add: linked_program_def place_attribute_def bound_program_def)
  from gl_init_shader_position [OF run] ps prg act
  have "position_loc shader' = 0
     \<and> (\<exists>pre post. calls w' =
            pre @ [GlBindAttribLocation (program shader') 0 ''vPosition'',
                   GlLinkProgram (program shader'),
                   GlGetProgramiv (program shader') GL_LINK_STATUS 1] @ post)"
    by auto
  with run show ?thesis by blast
qed

subsection \<open>C2: the outcomes of \<^verbatim>\<open>gl_init_shader\<close>\<close>

text \<open>
  Claim C2, as amended. Whenever \<^verbatim>\<open>gl_init_shader\<close> returns, it returns 0, and then the
  program and both stage identifiers are non-zero, the program is linked, and the two
  locations are what the driver reports for \<open>vPosition\<close> and \<open>aTexcoord\<close>, which is -1 for
  an attribute that is not active (the position is 0 or -1; neither is tested); or it
  returns \<open>-ENOMEM\<close>, and no program was created; or it returns \<open>-EINVAL\<close>, and a stage
  identifier is 0 or, the link having failed, the program object has been deleted by the
  last call. It does return for the two enumerated kinds when the uninitialised error
  pointer of the source compiler holds NULL and the binary loader's store of the file
  length stays within its variable (a \<^verbatim>\<open>gsize\<close> no wider than a \<^verbatim>\<open>GLsizei\<close>, or no binary
  extension). (The claim has locations of at least 0 on
  success; what becomes of the program object when a stage fails to load is left out.)
\<close>

theorem gl_init_shader_outcomes:
  "(gl_init_shader e shader process_type w = Some (ret, shader', w') \<longrightarrow>
       (ret = 0 \<and> program shader' \<noteq> 0 \<and> vertex_shader shader' \<noteq> 0
          \<and> fragment_shader shader' \<noteq> 0
          \<and> (\<exists>prg. programs w' (program shader') = Some prg \<and> link_ok prg
                \<and> position_loc shader' = attrib_loc prg ''vPosition''
                \<and> texcoord_loc shader' = attrib_loc prg ''aTexcoord'')
          \<and> (position_loc shader' = 0 \<or> position_loc shader' = - 1))
     \<or> (ret = - ENOMEM \<and> ret < 0 \<and> program shader' = 0)
     \<or> (ret = - EINVAL \<and> ret < 0
          \<and> (vertex_shader shader' = 0 \<or> fragment_shader shader' = 0
              \<or> (programs w' (program shader') = None
                  \<and> (\<exists>pre. calls w' = pre @ [GlDeleteProgram (program shader')])))))
   \<and> ((process_type = SHADER_DEINT_LINEAR \<or> process_type = SHADER_COPY)
        \<and> (\<forall>h. uninit_err_null e h)
        \<and> (sizeof_gsize e \<le> sizeof_GLsizei
            \<or> (\<forall>h. \<not> advertised (glGetString_r e h GL_EXTENSIONS) ''GL_NV_platform_binary''))
        \<longrightarrow> (\<exists>ret shader' w'. gl_init_shader e shader process_type w = Some (ret, shader', w')))"
proof (intro conjI impI)
  assume run: "gl_init_shader e shader process_type w = Some (ret, shader', w')"
  from gl_init_shader_cases [OF run]
  consider
    (nomem) w1 where "glCreateProgram e w = (0, w1)" "ret = - ENOMEM"
      "shader' = shader\<lparr>program := 0\<rparr>"
  | (stage) p w1 shader2 w2 where "glCreateProgram e w = (p, w1)" "p \<noteq> 0"
      "gl_load_shaders e (shader\<lparr>program := p\<rparr>) process_type w1 = Some (- EINVAL, shader2, w2)"
      "ret = - EINVAL" "shader' = shader2"
  | (loaded) p w1 shader2 w2 where "glCreateProgram e w = (p, w1)" "p \<noteq> 0"
      "gl_load_shaders e (shader\<lparr>program := p\<rparr>) process_type w1 = Some (0, shader2, w2)"
    by blast
  then show "(ret = 0 \<and> program shader' \<noteq> 0 \<and> vertex_shader shader' \<noteq> 0
          \<and> fragment_shader shader' \<noteq> 0
          \<and> (\<exists>prg. programs w' (program shader') = Some prg \<and> link_ok prg
                \<and> position_loc shader' = attrib_loc prg ''vPosition''
                \<and> texcoord_loc shader' = attrib_loc prg ''aTexcoord'')
          \<and> (position_loc shader' = 0 \<or> position_loc shader' = - 1))
     \<or> (ret = - ENOMEM \<and> ret < 0 \<and> program shader' = 0)
     \<or> (ret = - EINVAL \<and> ret < 0
          \<and> (vertex_shader shader' = 0 \<or> fragment_shader shader' = 0
              \<or> (programs w' (program shader') = None
                  \<and> (\<exists>pre. calls w' = pre @ [GlDeleteProgram (program shader')]))))"
  proof cases
    case nomem
    then show ?thesis by (simp add: ENOMEM_def)
  next
    case stage
    from gl_load_shaders_result(7) [OF stage(3)]
    have "vertex_shader shader2 = 0 \<or> fragment_shader shader2 = 0"
      by (simp add: EINVAL_def)
    with stage show ?thesis by (auto simp: EINVAL_def)
  next
    case loaded
    note prog = loaded(1) and nz = loaded(2) and load = loaded(3)
    have p: "program shader2 = p"
      using gl_load_shaders_result(2) [OF load] by simp
    have stages: "vertex_shader shader2 \<noteq> 0 \<and> fragment_shader shader2 \<noteq> 0"
      using gl_load_shaders_result(6) [OF load] by simp
    let ?h = "attach_calls e p shader2 (calls w2)"
    show ?thesis
    proof (cases "glLinkProgram_r e (?h @ [GlBindAttribLocation p 0 ''vPosition'']) p")
      case None
      from gl_init_shader_link_failed [OF prog nz load None] run
      have "ret = - EINVAL \<and> shader' = shader2 \<and> programs w' p = None
          \<and> (\<exists>pre. calls w' = pre @ [GlDeleteProgram p])"
        by auto
      then show ?thesis using p by (simp add: EINVAL_def)
    next
      case (Some attrs)
      from gl_init_shader_link_ok [OF prog nz load Some] run
      have r: "ret = 0"
        and sh: "shader' = shader2\<lparr>position_loc := attrib_loc (linked_program attrs) ''vPosition'',
                                  texcoord_loc := attrib_loc (linked_program attrs) ''aTexcoord''\<rparr>"
        and pr: "programs w' p = Some (linked_program attrs)"
        by auto
      have "link_ok (linked_program attrs)"
        by (simp add: linked_program_def)
      moreover have "position_loc shader' = 0 \<or> position_loc shader' = - 1"
        using attrib_loc_vPosition [of attrs] by (simp add: sh)
      ultimately show ?thesis
        using r sh pr p nz stages by simp
    qed
  qed
next
  assume a: "(process_type = SHADER_DEINT_LINEAR \<or> process_type = SHADER_COPY)
               \<and> (\<forall>h. uninit_err_null e h)
               \<and> (sizeof_gsize e \<le> sizeof_GLsizei
                   \<or> (\<forall>h. \<not> advertised (glGetString_r e h GL_EXTENSIONS)
                                ''GL_NV_platform_binary''))"
  obtain p w1 where prog: "glCreateProgram e w = (p, w1)"
    by (cases "glCreateProgram e w")
  show "\<exists>ret shader' w'. gl_init_shader e shader process_type w = Some (ret, shader', w')"
  proof (cases "p = 0")
    case True
    then show ?thesis using prog by (simp add: gl_init_shader_def)
  next
    case nz: False
    from a gl_load_shaders_total [of e process_type "shader\<lparr>program := p\<rparr>" w1]
    obtain ret2 shader2 w2 where
      load: "gl_load_shaders e (shader\<lparr>program := p\<rparr>) process_type w1 = Some (ret2, shader2, w2)"
      by blast
    from gl_load_shaders_result(5) [OF load] show ?thesis
    proof
      assume "ret2 = - EINVAL"
      then show ?thesis
        using prog nz load by (simp add: gl_init_shader_def EINVAL_def)
    next
      assume z: "ret2 = 0"
      let ?h = "attach_calls e p shader2 (calls w2)"
      show ?thesis
      proof (cases "glLinkProgram_r e (?h @ [GlBindAttribLocation p 0 ''vPosition'']) p")
        case None
        from gl_init_shader_link_failed [OF prog nz load [unfolded z] None]
        show ?thesis by blast
      next
        case (Some attrs)
        from gl_init_shader_link_ok [OF prog nz load [unfolded z] Some]
        show ?thesis by blast
      qed
    qed
  qed
qed

theorem gl_init_shader_outcomes_counterexample:
  "map_option fst (gl_init_shader no_attribute_env shader0 SHADER_COPY world0) = Some 0
   \<and> map_option (position_loc \<circ> fst \<circ> snd)
        (gl_init_shader no_attribute_env shader0 SHADER_COPY world0) = Some (- 1)
   \<and> map_option (texcoord_loc \<circ> fst \<circ> snd)
        (gl_init_shader no_attribute_env shader0 SHADER_COPY world0) = Some (- 1)"
proof -
  obtain shader2 w2 where
    load: "gl_load_shaders no_attribute_env (shader0\<lparr>program := 3\<rparr>) SHADER_COPY
             (snd (glCreateProgram no_attribute_env world0)) = Some (0, shader2, w2)"
    using demo_load unfolding no_attribute_env_def GL_NO_ERROR_def by blast
  have prog: "glCreateProgram no_attribute_env world0
                = (3, snd (glCreateProgram no_attribute_env world0))"
    unfolding no_attribute_env_def by (rule demo_prog)
  have link: "glLinkProgram_r no_attribute_env
                (attach_calls no_attribute_env 3 shader2 (calls w2)
                   @ [GlBindAttribLocation 3 0 ''vPosition'']) 3 = Some []"
    unfolding no_attribute_env_def by (rule demo_link)
  from gl_init_shader_link_ok [OF prog three load link]
  show ?thesis
    by (simp add: attrib_loc_def linked_program_def)
qed

theorem gl_init_shader_outcomes_witness:
  "(SHADER_COPY = SHADER_DEINT_LINEAR \<or> SHADER_COPY = SHADER_COPY)
   \<and> (\<forall>h. uninit_err_null source_env h)
   \<and> sizeof_gsize source_env \<le> sizeof_GLsizei
   \<and> (\<exists>shader' w'. gl_init_shader source_env shader0 SHADER_COPY world0 = Some (0, shader', w')
         \<and> program shader' \<noteq> 0 \<and> vertex_shader shader' \<noteq> 0 \<and> fragment_shader shader' \<noteq> 0
         \<and> (position_loc shader' = 0 \<or> position_loc shader' = - 1))"
proof -
  have null: "\<forall>h. uninit_err_null source_env h"
    by (simp add: source_env_def demo_env_def)
  have kind: "SHADER_COPY = SHADER_DEINT_LINEAR \<or> SHADER_COPY = SHADER_COPY"
    by simp
  have fits: "sizeof_gsize source_env \<le> sizeof_GLsizei"
    by (simp add: source_env_def demo_env_def sizeof_GLsizei_def)
  from gl_init_shader_outcomes [of source_env shader0 SHADER_COPY world0] kind null fits
  obtain ret shader' w' where
    run: "gl_init_shader source_env shader0 SHADER_COPY world0 = Some (ret, shader', w')"
    by blast
  obtain shader2 w2 where
    load: "gl_load_shaders source_env (shader0\<lparr>program := 3\<rparr>) SHADER_COPY
             (snd (glCreateProgram source_env world0)) = Some (0, shader2, w2)"
    using demo_load unfolding source_env_def GL_NO_ERROR_def by blast
  have prog: "glCreateProgram source_env world0 = (3, snd (glCreateProgram source_env world0))"
    unfolding source_env_def by (rule demo_prog)
  have link: "glLinkProgram_r source_env
                (attach_calls source_env 3 shader2 (calls w2)
                   @ [GlBindAttribLocation 3 0 ''vPosition'']) 3
              = Some [(''vPosition'', 1), (''aTexcoord'', 2)]"
    unfolding source_env_def by (rule demo_link)
  from gl_init_shader_link_ok [OF prog three load link] run
  have z: "ret = 0" by simp
  from gl_init_shader_outcomes [of source_env shader0 SHADER_COPY world0 ret shader' w'] run z
  have "program shader' \<noteq> 0 \<and> vertex_shader shader' \<noteq> 0 \<and> fragment_shader shader' \<noteq> 0
         \<and> (position_loc shader' = 0 \<or> position_loc shader' = - 1)"
    by (simp add: ENOMEM_def EINVAL_def)
  with run z kind null fits show ?thesis by blast
qed

end
